theory Spec2Isabelle
  imports Main
begin

section \<open>JavaScript helpers\<close>

text \<open>Errors thrown by the JavaScript code: a \<open>TypeError\<close> of the runtime, an \<open>Error\<close>
  thrown with \<open>throw new Error(message)\<close>, and a failed \<open>invariant(condition, message)\<close>.\<close>

datatype js_error = TypeError string | Error string | InvariantViolation string

text \<open>\<open>Array.prototype.join(separator)\<close> on an array of strings.\<close>

fun join :: "string \<Rightarrow> string list \<Rightarrow> string" where
  "join sep [] = []"
| "join sep [x] = x"
| "join sep (x # y # ys) = x @ sep @ join sep (y # ys)"

text \<open>\<open>Array.prototype.reduce(callback)\<close> with no initial value: the first element is the
  initial accumulator and the callback runs on the elements from index 1 on, with the
  element's index as its third argument. On an empty array it throws a \<open>TypeError\<close>.\<close>

fun reduce_from :: "('a \<Rightarrow> 'a \<Rightarrow> nat \<Rightarrow> 'a) \<Rightarrow> 'a \<Rightarrow> nat \<Rightarrow> 'a list \<Rightarrow> 'a" where
  "reduce_from f acc i [] = acc"
| "reduce_from f acc i (x # xs) = reduce_from f (f acc x i) (Suc i) xs"

definition reduce :: "('a \<Rightarrow> 'a \<Rightarrow> nat \<Rightarrow> 'a) \<Rightarrow> 'a list \<Rightarrow> js_error + 'a" where
  "reduce f xs =
     (case xs of
        [] \<Rightarrow> Inl (TypeError ''Reduce of empty array with no initial value'')
      | x # rest \<Rightarrow> Inr (reduce_from f x 1 rest))"

section \<open>jsutils/orList.js\<close>

definition MAX_LENGTH :: nat where
  "MAX_LENGTH = 5"

definition orList :: "string list \<Rightarrow> js_error + string" where
  "orList items =
     (let selected = take MAX_LENGTH items in
      reduce (\<lambda>list quoted index.
                list @ (if length selected > 2 then '', '' else '' '')
                     @ (if index = length selected - 1 then ''or '' else '''')
                     @ quoted)
             selected)"

text \<open>The rendering as the specification words it: the first \<open>MAX_LENGTH\<close> items, the last
  of them prefixed with "or " when at least two remain, joined with commas.\<close>

definition orList_comma_joined :: "string list \<Rightarrow> string" where
  "orList_comma_joined items =
     (let selected = take MAX_LENGTH items in
      join '', ''
        (butlast selected @
         [(if length selected \<ge> 2 then ''or '' else '''') @ last selected]))"

section \<open>language/ast: the AST nodes the validator reads\<close>

text \<open>Of an AST node the validator reads only the properties below (a name's
  \<open>name.value\<close>, an optional list of children, a \<open>type\<close>); every other use of a node
  is as a location of a diagnostic. A property that may be absent is an \<open>option\<close>.\<close>

datatype named_type_node = NamedTypeNode (name_value: string)

datatype type_node =
    NamedT named_type_node
  | ListTypeNode type_node
  | NonNullTypeNode type_node

record input_value_definition_node =
  ivd_name_value :: string
  ivd_type :: type_node

record field_definition_node =
  fd_name_value :: string
  fd_arguments :: "input_value_definition_node list option"
  fd_type :: type_node

record enum_value_definition_node =
  evd_name_value :: string

text \<open>The definition or extension node of a named type: \<open>interfaces\<close> and \<open>fields\<close> of an
  object or interface, \<open>types\<close> of a union or input union, \<open>values\<close> of an enum.\<close>

record type_definition_node =
  td_interfaces :: "named_type_node list option"
  td_fields :: "field_definition_node list option"
  td_types :: "named_type_node list option"
  td_values :: "enum_value_definition_node list option"

record operation_type_definition_node =
  otd_operation :: string
  otd_type :: named_type_node

record schema_definition_node =
  sd_operationTypes :: "operation_type_definition_node list"

record directive_definition_node =
  dd_arguments :: "input_value_definition_node list option"

datatype ast_node =
    SchemaDefinition schema_definition_node
  | TypeDefinition type_definition_node
  | DirectiveDefinition directive_definition_node
  | FieldDefinition field_definition_node
  | InputValueDefinition input_value_definition_node
  | EnumValueDefinition enum_value_definition_node
  | TypeN type_node

text \<open>\<open>node.type\<close> of a node held in an \<open>astNode\<close> property; \<open>undefined\<close> where the
  node has no such property.\<close>

fun node_type :: "ast_node \<Rightarrow> ast_node option" where
  "node_type (FieldDefinition n) = Some (TypeN (fd_type n))"
| "node_type (InputValueDefinition n) = Some (TypeN (ivd_type n))"
| "node_type _ = None"

section \<open>error/GraphQLError: a diagnostic\<close>

text \<open>\<open>new GraphQLError(message, nodes)\<close>: the message and the AST nodes it is located at.\<close>

record diagnostic =
  message :: string
  nodes :: "ast_node list"

section \<open>type/definition, type/directives, type/schema: the schema object graph\<close>

text \<open>Modelled from the spec: the classes of the named types and the type-kind predicates
  (\<open>isObjectType\<close>, \<open>isInterfaceType\<close>, \<open>isUnionType\<close>, \<open>isInputUnionType\<close>, \<open>isEnumType\<close>,
  \<open>isInputObjectType\<close>, \<open>isNonNullType\<close>) live in \<open>type/definition\<close>, which is not among the
  sources. The specification gives the data model: a named type is a closed variant over
  Scalar, Object, Interface, Union, InputUnion, Enum and InputObject, and a type reference
  may wrap a named type in non-null and list modifiers to arbitrary depth. Each predicate
  is the test for its variant.\<close>

datatype kind =
    ScalarKind | ObjectKind | InterfaceKind | UnionKind | InputUnionKind | EnumKind
  | InputObjectKind

text \<open>The declared type of a field or an argument: a reference to a named type (its name and
  kind), possibly wrapped.\<close>

datatype type_ref =
    NamedRef string kind
  | ListOf type_ref
  | NonNullOf type_ref

record argument =
  arg_name :: string
  arg_type :: type_ref
  arg_astNode :: "ast_node option"

record gql_field =
  field_name :: string
  field_type :: type_ref
  field_args :: "argument list"
  field_astNode :: "ast_node option"

record enum_value =
  enum_value_name :: string
  enum_value_astNode :: "ast_node option"

text \<open>A named type object with the properties and getters the validator uses. A JavaScript
  object used as a name-keyed map (\<open>getFields()\<close>) is the list of its entries in the order
  \<open>Object.keys\<close> enumerates them; its keys are unique. The getters of a kind the type does
  not have hold the empty list.\<close>

datatype named_type =
  NamedType
    (type_name: string)
    (type_kind: kind)
    (type_astNode: "type_definition_node option")
    (extensionASTNodes: "type_definition_node list option")
    (getFields: "(string \<times> gql_field) list")
    (getInterfaces: "named_type list")
    (getTypes: "named_type list")
    (getValues: "enum_value list")

definition isObjectType :: "named_type \<Rightarrow> bool" where
  "isObjectType t = (type_kind t = ObjectKind)"

definition isInterfaceType :: "named_type \<Rightarrow> bool" where
  "isInterfaceType t = (type_kind t = InterfaceKind)"

definition isUnionType :: "named_type \<Rightarrow> bool" where
  "isUnionType t = (type_kind t = UnionKind)"

definition isInputUnionType :: "named_type \<Rightarrow> bool" where
  "isInputUnionType t = (type_kind t = InputUnionKind)"

definition isEnumType :: "named_type \<Rightarrow> bool" where
  "isEnumType t = (type_kind t = EnumKind)"

definition isInputObjectType :: "named_type \<Rightarrow> bool" where
  "isInputObjectType t = (type_kind t = InputObjectKind)"

text \<open>\<open>isInputUnionType\<close> and \<open>isNonNullType\<close> applied to a declared type.\<close>

fun isInputUnionTypeRef :: "type_ref \<Rightarrow> bool" where
  "isInputUnionTypeRef (NamedRef n k) = (k = InputUnionKind)"
| "isInputUnionTypeRef _ = False"

fun isNonNullType :: "type_ref \<Rightarrow> bool" where
  "isNonNullType (NonNullOf t) = True"
| "isNonNullType _ = False"

text \<open>Modelled from the spec: \<open>String(type)\<close> of a named type calls the type's \<open>toString\<close>,
  which lives in \<open>type/definition\<close>, not among the sources. The specification has the
  diagnostics name the offending type, so the rendering is the type's name.\<close>

definition String_type :: "named_type \<Rightarrow> string" where
  "String_type t = type_name t"

record directive =
  directive_name :: string
  directive_args :: "argument list"
  directive_astNode :: "directive_definition_node option"

text \<open>An element of \<open>schema.getDirectives()\<close>: a directive (\<open>isDirective\<close> holds), or some
  other value, of which the validator reads \<open>String(directive)\<close> and
  \<open>directive && directive.astNode\<close>.\<close>

datatype directive_entry =
    IsDirective directive
  | NotDirective string "ast_node option"

text \<open>A value of the type map: a named type (\<open>isNamedType\<close> holds), or some other value, of
  which the validator reads \<open>String(type)\<close> and \<open>type && type.astNode\<close>.\<close>

datatype type_entry =
    IsNamedType named_type
  | NotNamedType string "ast_node option"

record schema =
  getQueryType :: "named_type option"
  getMutationType :: "named_type option"
  getSubscriptionType :: "named_type option"
  getDirectives :: "directive_entry list"
  getTypeMap :: "(string \<times> type_entry) list"
  schema_astNode :: "schema_definition_node option"
  allowedLegacyNames :: "string list option"
  validationErrors :: "diagnostic list option"

text \<open>The argument of the entry points: a schema (\<open>isSchema\<close> holds), or some other value,
  of which only \<open>String(schema)\<close> is read.\<close>

datatype schema_arg =
    ASchema schema
  | NotASchema string

text \<open>The collaborators the validator imports and that are not among the sources, taken as
  parameters: the input and output classification of a declared type, the two type
  comparators, the introspection type set, the name grammar (\<open>isValidNameError\<close> returns
  the diagnostic for an invalid name) and the rendering \<open>String(type)\<close> of a declared
  type.\<close>

record env =
  isInputType :: "type_ref \<Rightarrow> bool"
  isOutputType :: "type_ref \<Rightarrow> bool"
  isEqualType :: "type_ref \<Rightarrow> type_ref \<Rightarrow> bool"
  isTypeSubTypeOf :: "schema \<Rightarrow> type_ref \<Rightarrow> type_ref \<Rightarrow> bool"
  isIntrospectionType :: "named_type \<Rightarrow> bool"
  isValidNameError :: "string \<Rightarrow> ast_node option \<Rightarrow> diagnostic option"
  String_ref :: "type_ref \<Rightarrow> string"

section \<open>type/validate: the validation context\<close>

record validation_context =
  errors :: "diagnostic list"
  ctx_schema :: schema

definition new_context :: "schema \<Rightarrow> validation_context" where
  "new_context s = \<lparr>errors = [], ctx_schema = s\<rparr>"

text \<open>The second argument of \<open>reportError\<close>: an array of possibly absent nodes, or one
  possibly absent node.\<close>

datatype nodes_arg =
    NodeArray "ast_node option list"
  | SingleNode "ast_node option"

text \<open>A locator result that is an array of nodes, or \<open>undefined\<close>.\<close>

fun nodes_or_undefined :: "ast_node list option \<Rightarrow> nodes_arg" where
  "nodes_or_undefined None = SingleNode None"
| "nodes_or_undefined (Some ns) = NodeArray (map Some ns)"

definition addError :: "diagnostic \<Rightarrow> validation_context \<Rightarrow> validation_context" where
  "addError error ctx = ctx\<lparr>errors := errors ctx @ [error]\<rparr>"

definition reportError :: "string \<Rightarrow> nodes_arg \<Rightarrow> validation_context \<Rightarrow> validation_context" where
  "reportError msg nodes_in ctx =
     (let nodes' = List.map_filter id (case nodes_in of NodeArray ns \<Rightarrow> ns | SingleNode n \<Rightarrow> [n])
      in addError \<lparr>message = msg, nodes = nodes'\<rparr> ctx)"

definition getErrors :: "validation_context \<Rightarrow> diagnostic list" where
  "getErrors ctx = errors ctx"

section \<open>type/validate: locating AST nodes\<close>

definition getAllObjectNodes :: "named_type \<Rightarrow> type_definition_node list" where
  "getAllObjectNodes type =
     (case type_astNode type of
        Some astNode \<Rightarrow>
          (case extensionASTNodes type of
             Some ext \<Rightarrow> [astNode] @ ext
           | None \<Rightarrow> [astNode])
      | None \<Rightarrow> (case extensionASTNodes type of Some ext \<Rightarrow> ext | None \<Rightarrow> []))"

definition getAllObjectOrInterfaceNodes :: "named_type \<Rightarrow> type_definition_node list" where
  "getAllObjectOrInterfaceNodes type =
     (case type_astNode type of
        Some astNode \<Rightarrow>
          (case extensionASTNodes type of
             Some ext \<Rightarrow> [astNode] @ ext
           | None \<Rightarrow> [astNode])
      | None \<Rightarrow> (case extensionASTNodes type of Some ext \<Rightarrow> ext | None \<Rightarrow> []))"

definition getAllImplementsInterfaceNodes :: "named_type \<Rightarrow> named_type \<Rightarrow> named_type_node list" where
  "getAllImplementsInterfaceNodes type iface =
     concat (map (\<lambda>astNode.
                case td_interfaces astNode of
                  Some interfaces \<Rightarrow> filter (\<lambda>node. name_value node = type_name iface) interfaces
                | None \<Rightarrow> [])
             (getAllObjectNodes type))"

definition getImplementsInterfaceNode :: "named_type \<Rightarrow> named_type \<Rightarrow> named_type_node option" where
  "getImplementsInterfaceNode type iface =
     (case getAllImplementsInterfaceNodes type iface of [] \<Rightarrow> None | node # _ \<Rightarrow> Some node)"

definition getAllFieldNodes :: "named_type \<Rightarrow> string \<Rightarrow> field_definition_node list" where
  "getAllFieldNodes type fieldName =
     concat (map (\<lambda>astNode.
                case td_fields astNode of
                  Some fields' \<Rightarrow> filter (\<lambda>node. fd_name_value node = fieldName) fields'
                | None \<Rightarrow> [])
             (getAllObjectOrInterfaceNodes type))"

definition getFieldNode :: "named_type \<Rightarrow> string \<Rightarrow> field_definition_node option" where
  "getFieldNode type fieldName =
     (case getAllFieldNodes type fieldName of [] \<Rightarrow> None | node # _ \<Rightarrow> Some node)"

definition getFieldTypeNode :: "named_type \<Rightarrow> string \<Rightarrow> type_node option" where
  "getFieldTypeNode type fieldName =
     (case getFieldNode type fieldName of None \<Rightarrow> None | Some fieldNode \<Rightarrow> Some (fd_type fieldNode))"

definition getAllFieldArgNodes ::
    "named_type \<Rightarrow> string \<Rightarrow> string \<Rightarrow> input_value_definition_node list" where
  "getAllFieldArgNodes type fieldName argName =
     (case getFieldNode type fieldName of
        None \<Rightarrow> []
      | Some fieldNode \<Rightarrow>
          (case fd_arguments fieldNode of
             None \<Rightarrow> []
           | Some arguments \<Rightarrow> filter (\<lambda>node. ivd_name_value node = argName) arguments))"

definition getFieldArgNode ::
    "named_type \<Rightarrow> string \<Rightarrow> string \<Rightarrow> input_value_definition_node option" where
  "getFieldArgNode type fieldName argName =
     (case getAllFieldArgNodes type fieldName argName of [] \<Rightarrow> None | node # _ \<Rightarrow> Some node)"

definition getFieldArgTypeNode :: "named_type \<Rightarrow> string \<Rightarrow> string \<Rightarrow> type_node option" where
  "getFieldArgTypeNode type fieldName argName =
     (case getFieldArgNode type fieldName argName of
        None \<Rightarrow> None
      | Some fieldArgNode \<Rightarrow> Some (ivd_type fieldArgNode))"

definition getAllDirectiveArgNodes :: "directive \<Rightarrow> string \<Rightarrow> input_value_definition_node list" where
  "getAllDirectiveArgNodes directive argName =
     (case directive_astNode directive of
        None \<Rightarrow> []
      | Some directiveNode \<Rightarrow>
          (case dd_arguments directiveNode of
             None \<Rightarrow> []
           | Some arguments \<Rightarrow> filter (\<lambda>node. ivd_name_value node = argName) arguments))"

definition getDirectiveArgTypeNode :: "directive \<Rightarrow> string \<Rightarrow> type_node option" where
  "getDirectiveArgTypeNode directive argName =
     (case getAllDirectiveArgNodes directive argName of
        [] \<Rightarrow> None
      | argNode # _ \<Rightarrow> Some (ivd_type argNode))"

definition getUnionMemberTypeNodes :: "named_type \<Rightarrow> string \<Rightarrow> named_type_node list option" where
  "getUnionMemberTypeNodes union' typeName =
     (case type_astNode union' of
        None \<Rightarrow> None
      | Some astNode \<Rightarrow>
          (case td_types astNode of
             None \<Rightarrow> None
           | Some types \<Rightarrow> Some (filter (\<lambda>type. name_value type = typeName) types)))"

definition getInputUnionMemberTypeNodes :: "named_type \<Rightarrow> string \<Rightarrow> named_type_node list option" where
  "getInputUnionMemberTypeNodes inputUnion typeName =
     (case type_astNode inputUnion of
        None \<Rightarrow> None
      | Some astNode \<Rightarrow>
          (case td_types astNode of
             None \<Rightarrow> None
           | Some types \<Rightarrow> Some (filter (\<lambda>type. name_value type = typeName) types)))"

definition getEnumValueNodes :: "named_type \<Rightarrow> string \<Rightarrow> enum_value_definition_node list option" where
  "getEnumValueNodes enumType valueName =
     (case type_astNode enumType of
        None \<Rightarrow> None
      | Some astNode \<Rightarrow>
          (case td_values astNode of
             None \<Rightarrow> None
           | Some vals \<Rightarrow> Some (filter (\<lambda>v. evd_name_value v = valueName) vals)))"

definition getOperationTypeNode :: "schema \<Rightarrow> named_type \<Rightarrow> string \<Rightarrow> ast_node option" where
  "getOperationTypeNode schema type operation =
     (let operationTypeNode =
            (case schema_astNode schema of
               None \<Rightarrow> None
             | Some astNode \<Rightarrow>
                 find (\<lambda>operationType. otd_operation operationType = operation)
                      (sd_operationTypes astNode))
      in case operationTypeNode of
           Some n \<Rightarrow> Some (TypeN (NamedT (otd_type n)))
         | None \<Rightarrow> map_option TypeDefinition (type_astNode type))"

section \<open>type/validate: root types\<close>

definition validateRootTypes :: "validation_context \<Rightarrow> validation_context" where
  "validateRootTypes context =
     (let schema = ctx_schema context;
          c1 = (case getQueryType schema of
                  None \<Rightarrow>
                    reportError ''Query root type must be provided.''
                      (SingleNode (map_option SchemaDefinition (schema_astNode schema))) context
                | Some queryType \<Rightarrow>
                    if \<not> isObjectType queryType then
                      reportError
                        (''Query root type must be Object type, it cannot be ''
                           @ String_type queryType @ ''.'')
                        (SingleNode (getOperationTypeNode schema queryType ''query'')) context
                    else context);
          c2 = (case getMutationType schema of
                  None \<Rightarrow> c1
                | Some mutationType \<Rightarrow>
                    if \<not> isObjectType mutationType then
                      reportError
                        (''Mutation root type must be Object type if provided, it cannot be ''
                           @ String_type mutationType @ ''.'')
                        (SingleNode (getOperationTypeNode schema mutationType ''mutation'')) c1
                    else c1);
          c3 = (case getSubscriptionType schema of
                  None \<Rightarrow> c2
                | Some subscriptionType \<Rightarrow>
                    if \<not> isObjectType subscriptionType then
                      reportError
                        (''Subscription root type must be Object type if provided, it cannot be ''
                           @ String_type subscriptionType @ ''.'')
                        (SingleNode (getOperationTypeNode schema subscriptionType ''subscription''))
                        c2
                    else c2)
      in c3)"

section \<open>type/validate: names\<close>

text \<open>\<open>validateName(context, node)\<close> reads \<open>node.name\<close> and \<open>node.astNode\<close>, which are its
  second and third argument here.\<close>

definition validateName ::
    "env \<Rightarrow> string \<Rightarrow> ast_node option \<Rightarrow> validation_context \<Rightarrow> validation_context" where
  "validateName env name astNode context =
     (if (case allowedLegacyNames (ctx_schema context) of
            None \<Rightarrow> False
          | Some names \<Rightarrow> name \<in> set names)
      then context
      else (case isValidNameError env name astNode of
              Some error \<Rightarrow> addError error context
            | None \<Rightarrow> context))"

section \<open>type/validate: directives\<close>

text \<open>The body of the loop over the arguments of a directive. The loop's state is the
  object \<open>argNames\<close>, as the set of its keys, and the context.\<close>

definition validateDirectiveArg ::
    "env \<Rightarrow> directive \<Rightarrow> argument \<Rightarrow> string set \<times> validation_context
       \<Rightarrow> string set \<times> validation_context" where
  "validateDirectiveArg env directive arg st =
     (let argNames = fst st;
          argName = arg_name arg;
          c1 = validateName env (arg_name arg) (arg_astNode arg) (snd st)
      in if argName \<in> argNames then
           (argNames,
            reportError
              (''Argument @'' @ directive_name directive @ ''('' @ argName
                 @ '':) can only be defined once.'')
              (NodeArray (map (Some \<circ> InputValueDefinition)
                            (getAllDirectiveArgNodes directive argName)))
              c1)
         else
           (insert argName argNames,
            if \<not> isInputType env (arg_type arg) \<and> \<not> isInputUnionTypeRef (arg_type arg) then
              reportError
                (''The type of @'' @ directive_name directive @ ''('' @ argName
                   @ '':) must be Input Type but got: '' @ String_ref env (arg_type arg) @ ''.'')
                (SingleNode (map_option TypeN (getDirectiveArgTypeNode directive argName)))
                c1
            else c1))"

definition validateDirective ::
    "env \<Rightarrow> directive_entry \<Rightarrow> validation_context \<Rightarrow> validation_context" where
  "validateDirective env entry context =
     (case entry of
        NotDirective str astNode \<Rightarrow>
          reportError (''Expected directive but got: '' @ str @ ''.'') (SingleNode astNode) context
      | IsDirective directive \<Rightarrow>
          (let c1 = validateName env (directive_name directive)
                      (map_option DirectiveDefinition (directive_astNode directive)) context
           in snd (fold (validateDirectiveArg env directive) (directive_args directive) ({}, c1))))"

definition validateDirectives :: "env \<Rightarrow> validation_context \<Rightarrow> validation_context" where
  "validateDirectives env context =
     fold (validateDirective env) (getDirectives (ctx_schema context)) context"

section \<open>type/validate: fields of objects and interfaces\<close>

definition validateFieldArg ::
    "env \<Rightarrow> named_type \<Rightarrow> string \<Rightarrow> argument \<Rightarrow> string set \<times> validation_context
       \<Rightarrow> string set \<times> validation_context" where
  "validateFieldArg env type fieldName arg st =
     (let argNames = fst st;
          argName = arg_name arg;
          c1 = validateName env (arg_name arg) (arg_astNode arg) (snd st);
          c2 = (if argName \<in> argNames then
                  reportError
                    (''Field argument '' @ type_name type @ ''.'' @ fieldName @ ''('' @ argName
                       @ '':) can only be defined once.'')
                    (NodeArray (map (Some \<circ> InputValueDefinition)
                                  (getAllFieldArgNodes type fieldName argName)))
                    c1
                else c1);
          c3 = (if \<not> isInputType env (arg_type arg) \<and> \<not> isInputUnionTypeRef (arg_type arg) then
                  reportError
                    (''The type of '' @ type_name type @ ''.'' @ fieldName @ ''('' @ argName
                       @ '':) must be Input Type but got: '' @ String_ref env (arg_type arg)
                       @ ''.'')
                    (SingleNode (map_option TypeN (getFieldArgTypeNode type fieldName argName)))
                    c2
                else c2)
      in (insert argName argNames, c3))"

text \<open>The body of the loop over \<open>Object.keys(fieldMap)\<close>: the key and \<open>fieldMap[key]\<close>.\<close>

definition validateField ::
    "env \<Rightarrow> named_type \<Rightarrow> string \<times> gql_field \<Rightarrow> validation_context \<Rightarrow> validation_context" where
  "validateField env type entry context =
     (let fieldName = fst entry;
          field = snd entry;
          c1 = validateName env (field_name field) (field_astNode field) context;
          fieldNodes = getAllFieldNodes type fieldName
      in if length fieldNodes > 1 then
           reportError
             (''Field '' @ type_name type @ ''.'' @ fieldName @ '' can only be defined once.'')
             (NodeArray (map (Some \<circ> FieldDefinition) fieldNodes)) c1
         else
           (let c2 = (if \<not> isOutputType env (field_type field) then
                        reportError
                          (''The type of '' @ type_name type @ ''.'' @ fieldName
                             @ '' must be Output Type but got: ''
                             @ String_ref env (field_type field) @ ''.'')
                          (SingleNode (map_option TypeN (getFieldTypeNode type fieldName))) c1
                      else c1)
            in snd (fold (validateFieldArg env type fieldName) (field_args field) ({}, c2))))"

definition validateFields :: "env \<Rightarrow> named_type \<Rightarrow> validation_context \<Rightarrow> validation_context" where
  "validateFields env type context =
     (let fieldMap = getFields type;
          fieldNames = map fst fieldMap;
          c1 = (if length fieldNames = 0 then
                  reportError (''Type '' @ type_name type @ '' must define one or more fields.'')
                    (NodeArray (map (Some \<circ> TypeDefinition) (getAllObjectOrInterfaceNodes type)))
                    context
                else context)
      in fold (validateField env type) fieldMap c1)"

section \<open>type/validate: objects implementing interfaces\<close>

text \<open>The body of the loop over the arguments of the interface's field.\<close>

definition validateInterfaceArg ::
    "env \<Rightarrow> named_type \<Rightarrow> named_type \<Rightarrow> string \<Rightarrow> gql_field \<Rightarrow> argument
       \<Rightarrow> validation_context \<Rightarrow> validation_context" where
  "validateInterfaceArg env object iface fieldName objectField ifaceArg context =
     (let argName = arg_name ifaceArg in
      case find (\<lambda>arg. arg_name arg = argName) (field_args objectField) of
        None \<Rightarrow>
          reportError
            (''Interface field argument '' @ type_name iface @ ''.'' @ fieldName @ ''('' @ argName
               @ '':) expected but '' @ type_name object @ ''.'' @ fieldName
               @ '' does not provide it.'')
            (NodeArray
               [map_option InputValueDefinition (getFieldArgNode iface fieldName argName),
                map_option FieldDefinition (getFieldNode object fieldName)])
            context
      | Some objectArg \<Rightarrow>
          if \<not> isEqualType env (arg_type ifaceArg) (arg_type objectArg) then
            reportError
              (''Interface field argument '' @ type_name iface @ ''.'' @ fieldName @ ''(''
                 @ argName @ '':) expects type '' @ String_ref env (arg_type ifaceArg)
                 @ '' but '' @ type_name object @ ''.'' @ fieldName @ ''('' @ argName
                 @ '':) is type '' @ String_ref env (arg_type objectArg) @ ''.'')
              (NodeArray
                 [map_option TypeN (getFieldArgTypeNode iface fieldName argName),
                  map_option TypeN (getFieldArgTypeNode object fieldName argName)])
              context
          else context)"

text \<open>The body of the loop over the arguments of the object's field.\<close>

definition validateAdditionalArg ::
    "env \<Rightarrow> named_type \<Rightarrow> named_type \<Rightarrow> string \<Rightarrow> gql_field \<Rightarrow> argument
       \<Rightarrow> validation_context \<Rightarrow> validation_context" where
  "validateAdditionalArg env object iface fieldName ifaceField objectArg context =
     (let argName = arg_name objectArg;
          ifaceArg = find (\<lambda>arg. arg_name arg = argName) (field_args ifaceField)
      in if ifaceArg = None \<and> isNonNullType (arg_type objectArg) then
           reportError
             (''Object field argument '' @ type_name object @ ''.'' @ fieldName @ ''('' @ argName
                @ '':) is of required type '' @ String_ref env (arg_type objectArg)
                @ '' but is not also provided by the Interface field '' @ type_name iface
                @ ''.'' @ fieldName @ ''.'')
             (NodeArray
                [map_option TypeN (getFieldArgTypeNode object fieldName argName),
                 map_option FieldDefinition (getFieldNode iface fieldName)])
             context
         else context)"

text \<open>The body of the loop over \<open>Object.keys(ifaceFieldMap)\<close>: the key and
  \<open>ifaceFieldMap[key]\<close>; \<open>objectFieldMap[key]\<close> is looked up.\<close>

definition validateInterfaceField ::
    "env \<Rightarrow> named_type \<Rightarrow> named_type \<Rightarrow> string \<times> gql_field
       \<Rightarrow> validation_context \<Rightarrow> validation_context" where
  "validateInterfaceField env object iface entry context =
     (let fieldName = fst entry;
          ifaceField = snd entry
      in case map_of (getFields object) fieldName of
           None \<Rightarrow>
             reportError
               (''Interface field '' @ type_name iface @ ''.'' @ fieldName @ '' expected but ''
                  @ type_name object @ '' does not provide it.'')
               (NodeArray
                  [map_option FieldDefinition (getFieldNode iface fieldName),
                   map_option TypeDefinition (type_astNode object)])
               context
         | Some objectField \<Rightarrow>
             (let c1 = (if \<not> isTypeSubTypeOf env (ctx_schema context)
                                (field_type objectField) (field_type ifaceField)
                        then
                          reportError
                            (''Interface field '' @ type_name iface @ ''.'' @ fieldName
                               @ '' expects type '' @ String_ref env (field_type ifaceField)
                               @ '' but '' @ type_name object @ ''.'' @ fieldName
                               @ '' is type '' @ String_ref env (field_type objectField) @ ''.'')
                            (NodeArray
                               [map_option TypeN (getFieldTypeNode iface fieldName),
                                map_option TypeN (getFieldTypeNode object fieldName)])
                            context
                        else context);
                  c2 = fold (validateInterfaceArg env object iface fieldName objectField)
                         (field_args ifaceField) c1
              in fold (validateAdditionalArg env object iface fieldName ifaceField)
                   (field_args objectField) c2))"

definition validateObjectImplementsInterface ::
    "env \<Rightarrow> named_type \<Rightarrow> named_type \<Rightarrow> validation_context \<Rightarrow> validation_context" where
  "validateObjectImplementsInterface env object iface context =
     (if \<not> isInterfaceType iface then
        reportError
          (''Type '' @ String_type object @ '' must only implement Interface types, ''
             @ ''it cannot implement '' @ String_type iface @ ''.'')
          (SingleNode (map_option (TypeN \<circ> NamedT) (getImplementsInterfaceNode object iface)))
          context
      else fold (validateInterfaceField env object iface) (getFields iface) context)"

text \<open>The body of the loop over the interfaces an object claims, with the object
  \<open>implementedTypeNames\<close> as the set of its keys.\<close>

definition validateObjectInterface ::
    "env \<Rightarrow> named_type \<Rightarrow> named_type \<Rightarrow> string set \<times> validation_context
       \<Rightarrow> string set \<times> validation_context" where
  "validateObjectInterface env object iface st =
     (let implementedTypeNames = fst st; context = snd st in
      if type_name iface \<in> implementedTypeNames then
        (implementedTypeNames,
         reportError
           (''Type '' @ type_name object @ '' can only implement '' @ type_name iface
              @ '' once.'')
           (NodeArray (map (Some \<circ> TypeN \<circ> NamedT) (getAllImplementsInterfaceNodes object iface)))
           context)
      else
        (insert (type_name iface) implementedTypeNames,
         validateObjectImplementsInterface env object iface context))"

definition validateObjectInterfaces ::
    "env \<Rightarrow> named_type \<Rightarrow> validation_context \<Rightarrow> validation_context" where
  "validateObjectInterfaces env object context =
     snd (fold (validateObjectInterface env object) (getInterfaces object) ({}, context))"

section \<open>type/validate: members of unions and input unions\<close>

text \<open>The body of the loop over the member types, with the object \<open>includedTypeNames\<close> as
  the set of its keys.\<close>

definition validateInputUnionMember ::
    "named_type \<Rightarrow> named_type \<Rightarrow> string set \<times> validation_context
       \<Rightarrow> string set \<times> validation_context" where
  "validateInputUnionMember inputUnion memberType st =
     (let includedTypeNames = fst st; context = snd st in
      if type_name memberType \<in> includedTypeNames then
        (includedTypeNames,
         reportError
           (''Input Union type '' @ type_name inputUnion @ '' can only include type ''
              @ type_name memberType @ '' once.'')
           (nodes_or_undefined
              (map_option (map (TypeN \<circ> NamedT))
                 (getInputUnionMemberTypeNodes inputUnion (type_name memberType))))
           context)
      else
        (insert (type_name memberType) includedTypeNames,
         if \<not> isInputObjectType memberType then
           reportError
             (''Input Union type '' @ type_name inputUnion
                @ '' can only include Input Object types, ''
                @ ''it cannot include '' @ String_type memberType @ ''.'')
             (nodes_or_undefined
                (map_option (map (TypeN \<circ> NamedT))
                   (getInputUnionMemberTypeNodes inputUnion (String_type memberType))))
             context
         else context))"

definition validateInputUnionMembers :: "named_type \<Rightarrow> validation_context \<Rightarrow> validation_context" where
  "validateInputUnionMembers inputUnion context =
     (let memberTypes = getTypes inputUnion;
          c1 = (if length memberTypes = 0 then
                  reportError
                    (''Input Union type '' @ type_name inputUnion
                       @ '' must define one or more member types.'')
                    (SingleNode (map_option TypeDefinition (type_astNode inputUnion))) context
                else context)
      in snd (fold (validateInputUnionMember inputUnion) memberTypes ({}, c1)))"

definition validateUnionMember ::
    "named_type \<Rightarrow> named_type \<Rightarrow> string set \<times> validation_context
       \<Rightarrow> string set \<times> validation_context" where
  "validateUnionMember union' memberType st =
     (let includedTypeNames = fst st; context = snd st in
      if type_name memberType \<in> includedTypeNames then
        (includedTypeNames,
         reportError
           (''Union type '' @ type_name union' @ '' can only include type ''
              @ type_name memberType @ '' once.'')
           (nodes_or_undefined
              (map_option (map (TypeN \<circ> NamedT))
                 (getUnionMemberTypeNodes union' (type_name memberType))))
           context)
      else
        (insert (type_name memberType) includedTypeNames,
         if \<not> isObjectType memberType then
           reportError
             (''Union type '' @ type_name union' @ '' can only include Object types, ''
                @ ''it cannot include '' @ String_type memberType @ ''.'')
             (nodes_or_undefined
                (map_option (map (TypeN \<circ> NamedT))
                   (getUnionMemberTypeNodes union' (String_type memberType))))
             context
         else context))"

definition validateUnionMembers :: "named_type \<Rightarrow> validation_context \<Rightarrow> validation_context" where
  "validateUnionMembers union' context =
     (let memberTypes = getTypes union';
          c1 = (if length memberTypes = 0 then
                  reportError
                    (''Union type '' @ type_name union'
                       @ '' must define one or more member types.'')
                    (SingleNode (map_option TypeDefinition (type_astNode union'))) context
                else context)
      in snd (fold (validateUnionMember union') memberTypes ({}, c1)))"

section \<open>type/validate: enum values and input object fields\<close>

definition validateEnumValue ::
    "env \<Rightarrow> named_type \<Rightarrow> enum_value \<Rightarrow> validation_context \<Rightarrow> validation_context" where
  "validateEnumValue env enumType enumValue context =
     (let valueName = enum_value_name enumValue;
          allNodes = getEnumValueNodes enumType valueName;
          c1 = (case allNodes of
                  None \<Rightarrow> context
                | Some ns \<Rightarrow>
                    if length ns > 1 then
                      reportError
                        (''Enum type '' @ type_name enumType @ '' can include value ''
                           @ valueName @ '' only once.'')
                        (NodeArray (map (Some \<circ> EnumValueDefinition) ns)) context
                    else context);
          c2 = validateName env (enum_value_name enumValue) (enum_value_astNode enumValue) c1
      in if valueName = ''true'' \<or> valueName = ''false'' \<or> valueName = ''null'' then
           reportError
             (''Enum type '' @ type_name enumType @ '' cannot include value: '' @ valueName
                @ ''.'')
             (SingleNode (enum_value_astNode enumValue)) c2
         else c2)"

definition validateEnumValues :: "env \<Rightarrow> named_type \<Rightarrow> validation_context \<Rightarrow> validation_context" where
  "validateEnumValues env enumType context =
     (let enumValues = getValues enumType;
          c1 = (if length enumValues = 0 then
                  reportError
                    (''Enum type '' @ type_name enumType @ '' must define one or more values.'')
                    (SingleNode (map_option TypeDefinition (type_astNode enumType))) context
                else context)
      in fold (validateEnumValue env enumType) enumValues c1)"

definition validateInputField ::
    "env \<Rightarrow> named_type \<Rightarrow> string \<times> gql_field \<Rightarrow> validation_context \<Rightarrow> validation_context" where
  "validateInputField env inputObj entry context =
     (let fieldName = fst entry;
          field = snd entry;
          c1 = validateName env (field_name field) (field_astNode field) context
      in if \<not> isInputType env (field_type field) \<and> \<not> isInputUnionTypeRef (field_type field) then
           reportError
             (''The type of '' @ type_name inputObj @ ''.'' @ fieldName
                @ '' must be Input Type but got: '' @ String_ref env (field_type field) @ ''.'')
             (SingleNode (case field_astNode field of None \<Rightarrow> None | Some n \<Rightarrow> node_type n))
             c1
         else c1)"

definition validateInputFields :: "env \<Rightarrow> named_type \<Rightarrow> validation_context \<Rightarrow> validation_context" where
  "validateInputFields env inputObj context =
     (let fieldMap = getFields inputObj;
          fieldNames = map fst fieldMap;
          c1 = (if length fieldNames = 0 then
                  reportError
                    (''Input Object type '' @ type_name inputObj
                       @ '' must define one or more fields.'')
                    (SingleNode (map_option TypeDefinition (type_astNode inputObj))) context
                else context)
      in fold (validateInputField env inputObj) fieldMap c1)"

section \<open>type/validate: the type map\<close>

text \<open>The dispatch on the kind of a named type, in the body of the loop over the type map.\<close>

definition validateTypeKind ::
    "env \<Rightarrow> named_type \<Rightarrow> validation_context \<Rightarrow> validation_context" where
  "validateTypeKind env type context =
     (if isObjectType type then
        validateObjectInterfaces env type (validateFields env type context)
      else if isInterfaceType type then validateFields env type context
      else if isUnionType type then validateUnionMembers type context
      else if isInputUnionType type then validateInputUnionMembers type context
      else if isEnumType type then validateEnumValues env type context
      else if isInputObjectType type then validateInputFields env type context
      else context)"

text \<open>The body of the loop over \<open>Object.keys(typeMap)\<close>: the key and \<open>typeMap[key]\<close>.\<close>

definition validateType ::
    "env \<Rightarrow> string \<times> type_entry \<Rightarrow> validation_context \<Rightarrow> validation_context" where
  "validateType env entry context =
     (case snd entry of
        NotNamedType str astNode \<Rightarrow>
          reportError (''Expected GraphQL named type but got: '' @ str @ ''.'')
            (SingleNode astNode) context
      | IsNamedType type \<Rightarrow>
          (let c1 = (if \<not> isIntrospectionType env type then
                       validateName env (type_name type)
                         (map_option TypeDefinition (type_astNode type)) context
                     else context)
           in validateTypeKind env type c1))"

definition validateTypes :: "env \<Rightarrow> validation_context \<Rightarrow> validation_context" where
  "validateTypes env context = fold (validateType env) (getTypeMap (ctx_schema context)) context"

section \<open>type/validate: the entry points\<close>

text \<open>Both entry points return their outcome (a thrown error, or the returned value) and
  the schema object as they leave it: \<open>validateSchema\<close> writes \<open>__validationErrors\<close>.\<close>

definition validateSchema :: "env \<Rightarrow> schema_arg \<Rightarrow> (js_error + diagnostic list) \<times> schema_arg" where
  "validateSchema env arg =
     (case arg of
        NotASchema str \<Rightarrow>
          (Inl (InvariantViolation (''Expected '' @ str @ '' to be a GraphQL schema.'')), arg)
      | ASchema schema \<Rightarrow>
          (case validationErrors schema of
             Some cached \<Rightarrow> (Inr cached, arg)
           | None \<Rightarrow>
               (let context = new_context schema;
                    c1 = validateRootTypes context;
                    c2 = validateDirectives env c1;
                    c3 = validateTypes env c2;
                    errs = getErrors c3
                in (Inr errs, ASchema (schema\<lparr>validationErrors := Some errs\<rparr>)))))"

definition assertValidSchema :: "env \<Rightarrow> schema_arg \<Rightarrow> (js_error + unit) \<times> schema_arg" where
  "assertValidSchema env arg =
     (case validateSchema env arg of
        (Inl e, arg') \<Rightarrow> (Inl e, arg')
      | (Inr errs, arg') \<Rightarrow>
          if length errs \<noteq> 0 then
            (Inl (Error (join [CHR 0x0A, CHR 0x0A] (map message errs))), arg')
          else (Inr (), arg'))"

section \<open>Notions used in the statements\<close>

text \<open>The diagnostics a validator reports on the schema of a context: what it leaves in a
  context whose list of errors is empty.\<close>

definition emitted :: "(validation_context \<Rightarrow> validation_context) \<Rightarrow> validation_context \<Rightarrow> diagnostic list" where
  "emitted f ctx = errors (f (ctx\<lparr>errors := []\<rparr>))"

text \<open>A validator appends: it changes a context only by adding, at the end of the list of
  errors, the diagnostics it reports on the context's schema.\<close>

definition appends :: "(validation_context \<Rightarrow> validation_context) \<Rightarrow> bool" where
  "appends f = (\<forall>ctx. f ctx = ctx\<lparr>errors := errors ctx @ emitted f ctx\<rparr>)"

text \<open>The nodes \<open>reportError\<close> keeps of its second argument.\<close>

definition kept_nodes :: "nodes_arg \<Rightarrow> ast_node list" where
  "kept_nodes nodes_in =
     List.map_filter id (case nodes_in of NodeArray ns \<Rightarrow> ns | SingleNode n \<Rightarrow> [n])"

text \<open>The number of diagnostics that \<open>validateUnionMembers\<close> reports on a union saying that
  the type \<open>m\<close> is not an Object type, and the number that \<open>validateInputUnionMembers\<close>
  reports on an input union saying that \<open>m\<close> is not an Input Object type.\<close>

definition union_kind_errors :: "named_type \<Rightarrow> named_type \<Rightarrow> validation_context \<Rightarrow> nat" where
  "union_kind_errors union' m ctx =
     count_list (map message (emitted (validateUnionMembers union') ctx))
       (''Union type '' @ type_name union' @ '' can only include Object types, ''
          @ ''it cannot include '' @ String_type m @ ''.'')"

definition input_union_kind_errors :: "named_type \<Rightarrow> named_type \<Rightarrow> validation_context \<Rightarrow> nat" where
  "input_union_kind_errors inputUnion m ctx =
     count_list (map message (emitted (validateInputUnionMembers inputUnion) ctx))
       (''Input Union type '' @ type_name inputUnion
          @ '' can only include Input Object types, ''
          @ ''it cannot include '' @ String_type m @ ''.'')"

text \<open>A name is not in the legacy-name allowlist of a schema.\<close>

definition not_allowed_legacy :: "schema \<Rightarrow> string \<Rightarrow> bool" where
  "not_allowed_legacy s name =
     (case allowedLegacyNames s of None \<Rightarrow> True | Some names \<Rightarrow> name \<notin> set names)"

section \<open>Example collaborators and schemas\<close>

text \<open>An instance of the collaborators, for the examples: scalars, enums and input objects
  are input types; scalars, objects, interfaces, unions and enums are output types; both
  see through the wrappers. Two types are equal when they are the same reference; a type
  is a subtype of itself and of its nullable form. The introspection types are those
  with the names below, and a name is invalid when it begins with two underscores.\<close>

fun example_named_kind :: "type_ref \<Rightarrow> kind" where
  "example_named_kind (NamedRef n k) = k"
| "example_named_kind (ListOf t) = example_named_kind t"
| "example_named_kind (NonNullOf t) = example_named_kind t"

fun example_String :: "type_ref \<Rightarrow> string" where
  "example_String (NamedRef n k) = n"
| "example_String (ListOf t) = ''['' @ example_String t @ '']''"
| "example_String (NonNullOf t) = example_String t @ ''!''"

definition example_isValidNameError :: "string \<Rightarrow> ast_node option \<Rightarrow> diagnostic option" where
  "example_isValidNameError name node =
     (if take 2 name = ''__'' then
        Some \<lparr>message = ''Name '' @ name @ '' must not begin with __, which is reserved.'',
              nodes = (case node of None \<Rightarrow> [] | Some n \<Rightarrow> [n])\<rparr>
      else None)"

definition example_env :: env where
  "example_env =
     \<lparr>isInputType = (\<lambda>t. example_named_kind t \<in> {ScalarKind, EnumKind, InputObjectKind}),
      isOutputType = (\<lambda>t. example_named_kind t
                             \<in> {ScalarKind, ObjectKind, InterfaceKind, UnionKind, EnumKind}),
      isEqualType = (\<lambda>a b. a = b),
      isTypeSubTypeOf = (\<lambda>s a b. a = b \<or> a = NonNullOf b),
      isIntrospectionType = (\<lambda>t. type_name t \<in> set [''__Schema'', ''__Directive'',
         ''__DirectiveLocation'', ''__Type'', ''__Field'', ''__InputValue'', ''__EnumValue'',
         ''__TypeKind'']),
      isValidNameError = example_isValidNameError,
      String_ref = example_String\<rparr>"

text \<open>A schema with no root type, no directive and no type, and a context on it.\<close>

definition empty_schema :: schema where
  "empty_schema =
     \<lparr>getQueryType = None, getMutationType = None, getSubscriptionType = None,
      getDirectives = [], getTypeMap = [],
      schema_astNode = Some \<lparr>sd_operationTypes = []\<rparr>,
      allowedLegacyNames = None, validationErrors = None\<rparr>"

definition empty_context :: validation_context where
  "empty_context = new_context empty_schema"

text \<open>The scalars \<open>Int\<close> and \<open>String\<close>, and a type of each kind with no AST node and no
  payload.\<close>

definition Int_ref :: type_ref where
  "Int_ref = NamedRef ''Int'' ScalarKind"

definition String_ref_type :: type_ref where
  "String_ref_type = NamedRef ''String'' ScalarKind"

definition bare_type :: "string \<Rightarrow> kind \<Rightarrow> named_type" where
  "bare_type n k = NamedType n k None None [] [] [] []"

text \<open>The example of the specification: the interface \<open>I { f(a: Int): String }\<close>, the
  object \<open>O\<close> with \<open>f(a: Int, b: Int = 0): String\<close> and the object \<open>O2\<close> with
  \<open>f(a: Int, b: Int!): String\<close>.\<close>

definition arg_of :: "string \<Rightarrow> type_ref \<Rightarrow> argument" where
  "arg_of n t = \<lparr>arg_name = n, arg_type = t, arg_astNode = None\<rparr>"

definition field_of :: "string \<Rightarrow> type_ref \<Rightarrow> argument list \<Rightarrow> string \<times> gql_field" where
  "field_of n t as =
     (n, \<lparr>field_name = n, field_type = t, field_args = as, field_astNode = None\<rparr>)"

definition example_I :: named_type where
  "example_I =
     NamedType ''I'' InterfaceKind None None
       [field_of ''f'' String_ref_type [arg_of ''a'' Int_ref]] [] [] []"

definition example_O :: named_type where
  "example_O =
     NamedType ''O'' ObjectKind None None
       [field_of ''f'' String_ref_type [arg_of ''a'' Int_ref, arg_of ''b'' Int_ref]]
       [example_I] [] []"

definition example_O2 :: named_type where
  "example_O2 =
     NamedType ''O2'' ObjectKind None None
       [field_of ''f'' String_ref_type [arg_of ''a'' Int_ref, arg_of ''b'' (NonNullOf Int_ref)]]
       [example_I] [] []"

text \<open>A union and an input union with the same members: an object \<open>A\<close>, an input object
  \<open>B\<close> listed twice, and a scalar \<open>S\<close>.\<close>

definition example_members :: "named_type list" where
  "example_members =
     [bare_type ''A'' ObjectKind, bare_type ''B'' InputObjectKind,
      bare_type ''B'' InputObjectKind, bare_type ''S'' ScalarKind]"

definition example_union :: named_type where
  "example_union = NamedType ''U'' UnionKind None None [] [] example_members []"

definition example_input_union :: named_type where
  "example_input_union = NamedType ''IU'' InputUnionKind None None [] [] example_members []"

text \<open>A schema with no query root whose mutation root is the enum \<open>E\<close>, and a valid
  schema whose query root is the object \<open>Query { f: String }\<close>.\<close>

definition enum_root_schema :: schema where
  "enum_root_schema = empty_schema\<lparr>getMutationType := Some (bare_type ''E'' EnumKind)\<rparr>"

definition example_Query :: named_type where
  "example_Query =
     NamedType ''Query'' ObjectKind None None [field_of ''f'' String_ref_type []] [] [] []"

definition valid_schema :: schema where
  "valid_schema =
     empty_schema\<lparr>getQueryType := Some example_Query,
                   getTypeMap := [(''Query'', IsNamedType example_Query)]\<rparr>"

text \<open>An object type with the name of the introspection type \<open>__Type\<close> and a field
  \<open>__bad: String\<close>.\<close>

definition example_introspection_type :: named_type where
  "example_introspection_type =
     NamedType ''__Type'' ObjectKind None None [field_of ''__bad'' String_ref_type []] [] [] []"

text \<open>Two more objects claiming \<open>I\<close>: \<open>O3\<close> with \<open>f(a: String): Int\<close>, and \<open>O4\<close> with
  \<open>f(a: Int): String!\<close>.\<close>

definition example_O3 :: named_type where
  "example_O3 =
     NamedType ''O3'' ObjectKind None None
       [field_of ''f'' Int_ref [arg_of ''a'' String_ref_type]] [example_I] [] []"

definition example_O4 :: named_type where
  "example_O4 =
     NamedType ''O4'' ObjectKind None None
       [field_of ''f'' (NonNullOf String_ref_type) [arg_of ''a'' Int_ref]] [example_I] [] []"

text \<open>An object \<open>T\<close> whose field \<open>f\<close> declares the argument \<open>x\<close> twice, with the object
  type \<open>O\<close> as its type, and an enum \<open>E\<close> whose AST node defines the value \<open>true\<close>
  twice.\<close>

definition example_dup_args :: named_type where
  "example_dup_args =
     NamedType ''T'' ObjectKind None None
       [field_of ''f'' String_ref_type
          [arg_of ''x'' (NamedRef ''O'' ObjectKind), arg_of ''x'' (NamedRef ''O'' ObjectKind)]]
       [] [] []"

definition example_dup_enum :: named_type where
  "example_dup_enum =
     NamedType ''E'' EnumKind
       (Some \<lparr>td_interfaces = None, td_fields = None, td_types = None,
              td_values = Some [\<lparr>evd_name_value = ''true''\<rparr>, \<lparr>evd_name_value = ''true''\<rparr>]\<rparr>)
       None [] [] []
       [\<lparr>enum_value_name = ''true'', enum_value_astNode = None\<rparr>]"

text \<open>A directive \<open>@d(x: O, x: O)\<close> whose argument \<open>x\<close>, declared twice, has the object type
  \<open>O\<close> as its type.\<close>

definition example_dup_directive :: directive where
  "example_dup_directive =
     \<lparr>directive_name = ''d'',
      directive_args = [arg_of ''x'' (NamedRef ''O'' ObjectKind),
                        arg_of ''x'' (NamedRef ''O'' ObjectKind)],
      directive_astNode = None\<rparr>"

text \<open>An object \<open>T2\<close> whose AST node defines the field \<open>f\<close> twice; the type of \<open>f\<close> is
  the input object \<open>In\<close>, which is not an output type.\<close>

definition example_f_node :: field_definition_node where
  "example_f_node =
     \<lparr>fd_name_value = ''f'', fd_arguments = None, fd_type = NamedT (NamedTypeNode ''In'')\<rparr>"

definition example_dup_field :: named_type where
  "example_dup_field =
     NamedType ''T2'' ObjectKind
       (Some \<lparr>td_interfaces = None, td_fields = Some [example_f_node, example_f_node],
              td_types = None, td_values = None\<rparr>)
       None [field_of ''f'' (NamedRef ''In'' InputObjectKind) []] [] [] []"

text \<open>An object type with the name of the introspection type \<open>__Type\<close> whose AST node
  defines the field \<open>f\<close> twice; \<open>f\<close> declares an argument \<open>__a: Int\<close>.\<close>

definition example_f_node2 :: field_definition_node where
  "example_f_node2 =
     \<lparr>fd_name_value = ''f'', fd_arguments = None,
      fd_type = NamedT (NamedTypeNode ''String'')\<rparr>"

definition example_dup_field_bad_arg :: named_type where
  "example_dup_field_bad_arg =
     NamedType ''__Type'' ObjectKind
       (Some \<lparr>td_interfaces = None, td_fields = Some [example_f_node2, example_f_node2],
              td_types = None, td_values = None\<rparr>)
       None [field_of ''f'' String_ref_type [arg_of ''__a'' Int_ref]] [] [] []"

section \<open>Properties of orList\<close>

lemma join_Cons_nonempty: "ys \<noteq> [] \<Longrightarrow> join sep (x # ys) = x @ sep @ join sep ys"
  by (cases ys) simp_all

lemma join_Cons_snoc: "join sep (x # ys @ [z]) = x @ sep @ join sep (ys @ [z])"
  by (rule join_Cons_nonempty) simp

lemma reduce_from_orList:
  "xs \<noteq> [] \<Longrightarrow> i + length xs = n \<Longrightarrow>
   reduce_from (\<lambda>list quoted index. list @ sep @ (if index = n - 1 then ''or '' else '''') @ quoted)
      acc i xs
   = acc @ sep @ join sep (butlast xs @ [''or '' @ last xs])"
proof (induction xs arbitrary: acc i)
  case Nil
  then show ?case by simp
next
  case (Cons x xs)
  show ?case
  proof (cases xs)
    case Nil
    with Cons.prems show ?thesis by auto
  next
    case (Cons y ys)
    with Cons.prems have idx: "i \<noteq> n - 1" and len: "Suc i + length xs = n" by auto
    have ne: "xs \<noteq> []" using Cons by simp
    show ?thesis
      using Cons.IH [OF ne len] idx ne
      by (simp add: join_Cons_snoc)
  qed
qed

lemma orList_nonempty:
  assumes "items \<noteq> []"
  shows "orList items =
     Inr (let selected = take MAX_LENGTH items in
          join (if length selected > 2 then '', '' else '' '')
            (butlast selected @
             [(if length selected \<ge> 2 then ''or '' else '''') @ last selected]))"
proof -
  define selected where "selected = take MAX_LENGTH items"
  define sep where "sep = (if length selected > 2 then '', '' else '' '')"
  define f where "f = (\<lambda>list quoted index.
      list @ sep @ (if index = length selected - 1 then ''or '' else '''') @ quoted)"
  obtain x rest where sel: "selected = x # rest"
    using assms by (cases selected) (auto simp: selected_def MAX_LENGTH_def)
  have call: "orList items = reduce f selected"
    unfolding orList_def Let_def selected_def [symmetric] sep_def [symmetric] f_def ..
  have goal: "reduce f selected =
      Inr (join sep (butlast selected @
             [(if length selected \<ge> 2 then ''or '' else '''') @ last selected]))"
  proof (cases rest)
    case Nil
    then show ?thesis
      using sel by (simp add: reduce_def)
  next
    case (Cons y ys)
    have ne: "rest \<noteq> []" using Cons by simp
    have len: "1 + length rest = length selected" using sel by simp
    have two: "Suc 0 \<le> length rest" using ne by (cases rest) simp_all
    have "reduce_from f x 1 rest = x @ sep @ join sep (butlast rest @ [''or '' @ last rest])"
      unfolding f_def by (rule reduce_from_orList [OF ne len])
    then show ?thesis
      using sel ne two by (simp add: reduce_def join_Cons_snoc)
  qed
  show ?thesis
    unfolding call goal Let_def selected_def [symmetric] sep_def [symmetric] ..
qed

text \<open>
  Claim C9, as amended. For a non-empty list of items, \<open>orList\<close> returns a rendering of the
  first \<open>MAX_LENGTH = 5\<close> items in which the last selected item is prefixed with "or " exactly
  when at least two items are selected; the items are separated by a comma and a space when
  more than two are selected, and by a single space when exactly two are: the list
  A, B, C renders as "A, B, or C", the list A, B as "A or B", and a single item as itself.
\<close>

theorem orList_rendering:
  "items \<noteq> [] \<Longrightarrow>
   orList items =
     Inr (let selected = take MAX_LENGTH items in
          join (if length selected > 2 then '', '' else '' '')
            (butlast selected @
             [(if length selected \<ge> 2 then ''or '' else '''') @ last selected]))"
  by (rule orList_nonempty)

theorem orList_rendering_witness:
  "orList [''A'', ''B'', ''C''] = Inr ''A, B, or C''
   \<and> orList [''A''] = Inr ''A''
   \<and> orList [''A'', ''B''] = Inr ''A or B''
   \<and> orList [''A'', ''B'', ''C'', ''D'', ''E'', ''F'', ''G''] = Inr ''A, B, C, D, or E''"
  using orList_rendering [of "[''A'', ''B'', ''C'']"]
    orList_rendering [of "[''A'']"]
    orList_rendering [of "[''A'', ''B'']"]
    orList_rendering [of "[''A'', ''B'', ''C'', ''D'', ''E'', ''F'', ''G'']"]
  by (simp add: MAX_LENGTH_def)

text \<open>
  Claim C9, as stated, fails for a list of exactly two items: the code joins them with a
  single space, so A, B renders as "A or B", while the comma-joined rendering of the
  claim is "A, or B".
\<close>

theorem orList_two_items_counterexample:
  "orList [''A'', ''B''] = Inr ''A or B''
   \<and> orList_comma_joined [''A'', ''B''] = ''A, or B''
   \<and> orList [''A'', ''B''] \<noteq> Inr (orList_comma_joined [''A'', ''B''])"
  by (simp add: orList_def orList_comma_joined_def reduce_def MAX_LENGTH_def)

text \<open>
  Claim C10. \<open>orList\<close> is partial: on the empty list the reduction has no initial
  accumulator and throws a \<open>TypeError\<close>, so no value is returned; it returns a value
  exactly when the list of items is non-empty.
\<close>

theorem orList_partial:
  "orList [] = Inl (TypeError ''Reduce of empty array with no initial value'')
   \<and> ((\<exists>s. orList items = Inr s) \<longleftrightarrow> items \<noteq> [])"
proof -
  have empty: "orList [] = Inl (TypeError ''Reduce of empty array with no initial value'')"
    by (simp add: orList_def reduce_def)
  have "\<exists>s. orList items = Inr s" if "items \<noteq> []"
    using orList_nonempty [OF that] by simp
  moreover have "items \<noteq> []" if "\<exists>s. orList items = Inr s"
    using that empty by auto
  ultimately show ?thesis using empty by blast
qed

theorem orList_partial_witness:
  "orList [] = Inl (TypeError ''Reduce of empty array with no initial value'')
   \<and> (\<exists>s. orList [''A'', ''B''] = Inr s)
   \<and> \<not> (\<exists>s. orList [] = Inr s)"
  using orList_partial [of "[''A'', ''B'']"] orList_partial [of "[]"]
  by simp

section \<open>Properties of the validation context\<close>

lemma ctx_schema_addError [simp]: "ctx_schema (addError e ctx) = ctx_schema ctx"
  by (simp add: addError_def)

lemma errors_addError [simp]: "errors (addError e ctx) = errors ctx @ [e]"
  by (simp add: addError_def)

lemma ctx_schema_reportError [simp]: "ctx_schema (reportError m n ctx) = ctx_schema ctx"
  by (simp add: reportError_def)

lemma errors_reportError [simp]:
  "errors (reportError m n ctx) = errors ctx @ [\<lparr>message = m, nodes = kept_nodes n\<rparr>]"
  by (simp add: reportError_def kept_nodes_def)

lemma context_eqI:
  "ctx_schema c = ctx_schema c' \<Longrightarrow> errors c = errors c' \<Longrightarrow> c = (c' :: validation_context)"
  by simp

lemma emitted_cong: "ctx_schema ctx' = ctx_schema ctx \<Longrightarrow> emitted f ctx' = emitted f ctx"
proof -
  assume "ctx_schema ctx' = ctx_schema ctx"
  then have "ctx'\<lparr>errors := []\<rparr> = ctx\<lparr>errors := []\<rparr>" by (intro context_eqI) simp_all
  then show ?thesis by (simp add: emitted_def)
qed

lemma appends_iff:
  "appends f \<longleftrightarrow>
     (\<forall>ctx. ctx_schema (f ctx) = ctx_schema ctx \<and> errors (f ctx) = errors ctx @ emitted f ctx)"
proof
  assume a: "appends f"
  show "\<forall>ctx. ctx_schema (f ctx) = ctx_schema ctx \<and> errors (f ctx) = errors ctx @ emitted f ctx"
  proof
    fix ctx
    have "f ctx = ctx\<lparr>errors := errors ctx @ emitted f ctx\<rparr>"
      using a by (simp add: appends_def)
    then have "ctx_schema (f ctx) = ctx_schema (ctx\<lparr>errors := errors ctx @ emitted f ctx\<rparr>)"
      and "errors (f ctx) = errors (ctx\<lparr>errors := errors ctx @ emitted f ctx\<rparr>)"
      by simp_all
    then show "ctx_schema (f ctx) = ctx_schema ctx \<and> errors (f ctx) = errors ctx @ emitted f ctx"
      by simp
  qed
next
  assume "\<forall>ctx. ctx_schema (f ctx) = ctx_schema ctx \<and> errors (f ctx) = errors ctx @ emitted f ctx"
  then show "appends f"
    unfolding appends_def by (intro allI context_eqI) simp_all
qed

lemma appends_errors: "appends f \<Longrightarrow> errors (f ctx) = errors ctx @ emitted f ctx"
  by (simp add: appends_iff)

lemma appends_schema: "appends f \<Longrightarrow> ctx_schema (f ctx) = ctx_schema ctx"
  by (simp add: appends_iff)

lemma appendsI:
  assumes "\<And>ctx. ctx_schema (f ctx) = ctx_schema ctx"
    and "\<And>ctx. errors (f ctx) = errors ctx @ ds (ctx_schema ctx)"
  shows "appends f"
proof -
  have "emitted f ctx = ds (ctx_schema ctx)" for ctx
    using assms(2) [of "ctx\<lparr>errors := []\<rparr>"] by (simp add: emitted_def)
  then show ?thesis
    using assms by (simp add: appends_iff)
qed

lemma appends_id: "appends (\<lambda>c. c)"
  by (rule appendsI [where ds = "\<lambda>_. []"]) simp_all

lemma appends_addError: "appends (addError e)"
  by (rule appendsI [where ds = "\<lambda>_. [e]"]) simp_all

lemma appends_reportError: "appends (reportError m n)"
  by (rule appendsI [where ds = "\<lambda>_. [\<lparr>message = m, nodes = kept_nodes n\<rparr>]"]) simp_all

lemma emitted_id [simp]: "emitted (\<lambda>c. c) ctx = []"
  by (simp add: emitted_def)

lemma emitted_reportError [simp]:
  "emitted (reportError m n) ctx = [\<lparr>message = m, nodes = kept_nodes n\<rparr>]"
  by (simp add: emitted_def)

lemma emitted_addError [simp]: "emitted (addError e) ctx = [e]"
  by (simp add: emitted_def)

lemma emitted_comp:
  assumes "appends f" and "appends g"
  shows "emitted (\<lambda>c. g (f c)) ctx = emitted f ctx @ emitted g ctx"
proof -
  let ?c0 = "ctx\<lparr>errors := []\<rparr>"
  have "errors (g (f ?c0)) = errors (f ?c0) @ emitted g (f ?c0)"
    using assms(2) by (rule appends_errors)
  moreover have "emitted g (f ?c0) = emitted g ctx"
    by (rule emitted_cong) (simp add: appends_schema [OF assms(1)])
  ultimately show ?thesis by (simp add: emitted_def)
qed

lemma appends_comp:
  assumes "appends f" and "appends g"
  shows "appends (\<lambda>c. g (f c))"
  unfolding appends_iff
proof (intro allI conjI)
  fix ctx
  show "ctx_schema (g (f ctx)) = ctx_schema ctx"
    by (simp add: appends_schema [OF assms(1)] appends_schema [OF assms(2)])
  have "emitted g (f ctx) = emitted g ctx"
    by (rule emitted_cong) (simp add: appends_schema [OF assms(1)])
  then show "errors (g (f ctx)) = errors ctx @ emitted (\<lambda>c. g (f c)) ctx"
    by (simp add: appends_errors [OF assms(1)] appends_errors [OF assms(2)]
        emitted_comp [OF assms])
qed

lemma appends_if: "appends f \<Longrightarrow> appends g \<Longrightarrow> appends (\<lambda>c. if b then f c else g c)"
  by (cases b) simp_all

lemma appends_fold:
  assumes "\<And>x. x \<in> set xs \<Longrightarrow> appends (step x)"
  shows "appends (fold step xs)"
  using assms
proof (induction xs)
  case Nil
  then show ?case by (simp add: appends_id [unfolded id_def] id_def)
next
  case (Cons x xs)
  have "appends (\<lambda>c. fold step xs (step x c))"
    by (rule appends_comp) (simp_all add: Cons)
  then show ?case by (simp add: comp_def)
qed

lemma emitted_fold:
  assumes "\<And>x. x \<in> set xs \<Longrightarrow> appends (step x)"
  shows "emitted (fold step xs) ctx = concat (map (\<lambda>x. emitted (step x) ctx) xs)"
  using assms
proof (induction xs)
  case Nil
  then show ?case by (simp add: emitted_def)
next
  case (Cons x xs)
  have "emitted (\<lambda>c. fold step xs (step x c)) ctx = emitted (step x) ctx @ emitted (fold step xs) ctx"
    by (rule emitted_comp) (simp_all add: Cons appends_fold)
  then show ?case using Cons by (simp add: comp_def)
qed

text \<open>A loop whose state is a set of names and the context.\<close>

lemma appends_fold_seen:
  assumes ap: "\<And>x seen. appends (\<lambda>c. snd (step x (seen, c)))"
    and names: "\<And>x seen c c'. fst (step x (seen, c)) = fst (step x (seen, c'))"
  shows "appends (\<lambda>c. snd (fold step xs (seen, c)))"
proof (induction xs arbitrary: seen)
  case Nil
  then show ?case by (simp add: appends_id)
next
  case (Cons x xs)
  define seen' where "seen' = fst (step x (seen, undefined))"
  have st: "step x (seen, c) = (seen', snd (step x (seen, c)))" for c
    using names [of x seen c undefined] by (simp add: seen'_def prod_eq_iff)
  have "appends (\<lambda>c. snd (fold step xs (seen', snd (step x (seen, c)))))"
    by (rule appends_comp [OF ap Cons.IH])
  then show ?case
    using st by simp
qed

section \<open>Names\<close>

lemma validateName_eq:
  "validateName env name node ctx =
     ctx\<lparr>errors := errors ctx @
        (if (case allowedLegacyNames (ctx_schema ctx) of None \<Rightarrow> False
             | Some names \<Rightarrow> name \<in> set names) then []
         else (case isValidNameError env name node of None \<Rightarrow> [] | Some e \<Rightarrow> [e]))\<rparr>"
  by (simp add: validateName_def addError_def split: option.splits)

lemma appends_validateName: "appends (validateName env name node)"
  by (rule appendsI [where ds = "\<lambda>s.
        (if (case allowedLegacyNames s of None \<Rightarrow> False | Some names \<Rightarrow> name \<in> set names)
         then [] else (case isValidNameError env name node of None \<Rightarrow> [] | Some e \<Rightarrow> [e]))"])
     (simp_all add: validateName_eq)

lemma emitted_validateName:
  "emitted (validateName env name node) ctx =
     (if (case allowedLegacyNames (ctx_schema ctx) of None \<Rightarrow> False
          | Some names \<Rightarrow> name \<in> set names) then []
      else (case isValidNameError env name node of None \<Rightarrow> [] | Some e \<Rightarrow> [e]))"
  by (simp add: emitted_def validateName_eq)

section \<open>Members of unions and input unions\<close>

lemma appendsI2:
  assumes "\<And>ctx. ctx_schema (f ctx) = ctx_schema ctx"
    and "\<And>ctx. errors (f ctx) = errors ctx @ errors (f (ctx\<lparr>errors := []\<rparr>))"
  shows "appends f"
  unfolding appends_iff emitted_def using assms by blast

lemma appends_validateUnionMember: "appends (\<lambda>c. snd (validateUnionMember u m (seen, c)))"
  by (rule appendsI2) (simp_all add: validateUnionMember_def Let_def)

lemma fst_validateUnionMember:
  "fst (validateUnionMember u m (seen, c)) = insert (type_name m) seen"
  by (auto simp add: validateUnionMember_def Let_def)

lemma appends_union_loop: "appends (\<lambda>c. snd (fold (validateUnionMember u) ms (seen, c)))"
  by (rule appends_fold_seen) (simp_all add: appends_validateUnionMember fst_validateUnionMember)

lemma appends_validateUnionMembers: "appends (validateUnionMembers u)"
proof -
  have "appends (\<lambda>c. if length (getTypes u) = 0 then reportError m n c else c)" for m n
    by (rule appendsI2) simp_all
  then have "appends (\<lambda>c. snd (fold (validateUnionMember u) (getTypes u) ({},
           (if length (getTypes u) = 0 then reportError m n c else c))))" for m n
    by (rule appends_comp [OF _ appends_union_loop])
  then show ?thesis
    unfolding validateUnionMembers_def Let_def .
qed


lemma count_list_append: "count_list (xs @ ys) x = count_list xs x + count_list ys x"
  by (induction xs) auto

lemma find_identified:
  "m \<in> set ms \<Longrightarrow> \<forall>m'\<in>set ms. f m' = f m \<longrightarrow> m' = m \<Longrightarrow> find (\<lambda>x. f x = f m) ms = Some m"
  by (induction ms) auto

lemma union_loop_count:
  fixes u m
  defines "k \<equiv> ''Union type '' @ type_name u @ '' can only include Object types, it cannot include ''
        @ String_type m @ ''.''"
  shows "count_list (map message (errors (snd (fold (validateUnionMember u) ms (seen, c))))) k
   = count_list (map message (errors c)) k
     + (if type_name m \<in> seen then 0
        else case find (\<lambda>x. type_name x = type_name m) ms of
               None \<Rightarrow> 0
             | Some m0 \<Rightarrow> if isObjectType m0 then 0 else 1)"
proof -
  have neq_dup: "''Union type '' @ type_name u @ '' can only include type ''
              @ type_name x @ '' once.'' \<noteq> k" for x
    by (simp add: k_def)
  have eq_kind: "(''Union type '' @ type_name u @ '' can only include Object types, ''
                @ ''it cannot include '' @ String_type x @ ''.'' = k) \<longleftrightarrow> type_name x = type_name m" for x
    by (simp add: k_def String_type_def)
  show ?thesis
  proof (induction ms arbitrary: seen c)
    case Nil
    then show ?case by simp
  next
    case (Cons x ms)
    show ?case
    proof (cases "type_name x \<in> seen")
      case True
      then have step: "validateUnionMember u x (seen, c) =
          (seen, reportError (''Union type '' @ type_name u @ '' can only include type ''
                @ type_name x @ '' once.'')
             (nodes_or_undefined (map_option (map (TypeN \<circ> NamedT))
                (getUnionMemberTypeNodes u (type_name x)))) c)"
        by (simp add: validateUnionMember_def Let_def)
      show ?thesis
        using True neq_dup [of x]
        by (auto simp add: step Cons.IH count_list_append)
    next
      case False
      then have step: "validateUnionMember u x (seen, c) =
          (insert (type_name x) seen,
           if \<not> isObjectType x then
             reportError (''Union type '' @ type_name u @ '' can only include Object types, ''
                  @ ''it cannot include '' @ String_type x @ ''.'')
               (nodes_or_undefined (map_option (map (TypeN \<circ> NamedT))
                  (getUnionMemberTypeNodes u (String_type x)))) c
           else c)"
        by (simp add: validateUnionMember_def Let_def)
      show ?thesis
        using False eq_kind [of x]
        by (auto simp add: step Cons.IH count_list_append)
    qed
  qed
qed

lemma appends_validateInputUnionMember: "appends (\<lambda>c. snd (validateInputUnionMember u m (seen, c)))"
  by (rule appendsI2) (simp_all add: validateInputUnionMember_def Let_def)

lemma fst_validateInputUnionMember:
  "fst (validateInputUnionMember u m (seen, c)) = insert (type_name m) seen"
  by (auto simp add: validateInputUnionMember_def Let_def)

lemma appends_input_union_loop: "appends (\<lambda>c. snd (fold (validateInputUnionMember u) ms (seen, c)))"
  by (rule appends_fold_seen) (simp_all add: appends_validateInputUnionMember fst_validateInputUnionMember)

lemma appends_validateInputUnionMembers: "appends (validateInputUnionMembers u)"
proof -
  have "appends (\<lambda>c. if length (getTypes u) = 0 then reportError m n c else c)" for m n
    by (rule appendsI2) simp_all
  then have "appends (\<lambda>c. snd (fold (validateInputUnionMember u) (getTypes u) ({},
           (if length (getTypes u) = 0 then reportError m n c else c))))" for m n
    by (rule appends_comp [OF _ appends_input_union_loop])
  then show ?thesis
    unfolding validateInputUnionMembers_def Let_def .
qed


lemma input_union_loop_count:
  fixes u m
  defines "k \<equiv> ''Input Union type '' @ type_name u @ '' can only include Input Object types, it cannot include ''
        @ String_type m @ ''.''"
  shows "count_list (map message (errors (snd (fold (validateInputUnionMember u) ms (seen, c))))) k
   = count_list (map message (errors c)) k
     + (if type_name m \<in> seen then 0
        else case find (\<lambda>x. type_name x = type_name m) ms of
               None \<Rightarrow> 0
             | Some m0 \<Rightarrow> if isInputObjectType m0 then 0 else 1)"
proof -
  have neq_dup: "''Input Union type '' @ type_name u @ '' can only include type ''
              @ type_name x @ '' once.'' \<noteq> k" for x
    by (simp add: k_def)
  have eq_kind: "(''Input Union type '' @ type_name u @ '' can only include Input Object types, ''
                @ ''it cannot include '' @ String_type x @ ''.'' = k) \<longleftrightarrow> type_name x = type_name m" for x
    by (simp add: k_def String_type_def)
  show ?thesis
  proof (induction ms arbitrary: seen c)
    case Nil
    then show ?case by simp
  next
    case (Cons x ms)
    show ?case
    proof (cases "type_name x \<in> seen")
      case True
      then have step: "validateInputUnionMember u x (seen, c) =
          (seen, reportError (''Input Union type '' @ type_name u @ '' can only include type ''
                @ type_name x @ '' once.'')
             (nodes_or_undefined (map_option (map (TypeN \<circ> NamedT))
                (getInputUnionMemberTypeNodes u (type_name x)))) c)"
        by (simp add: validateInputUnionMember_def Let_def)
      show ?thesis
        using True neq_dup [of x]
        by (auto simp add: step Cons.IH count_list_append)
    next
      case False
      then have step: "validateInputUnionMember u x (seen, c) =
          (insert (type_name x) seen,
           if \<not> isInputObjectType x then
             reportError (''Input Union type '' @ type_name u @ '' can only include Input Object types, ''
                  @ ''it cannot include '' @ String_type x @ ''.'')
               (nodes_or_undefined (map_option (map (TypeN \<circ> NamedT))
                  (getInputUnionMemberTypeNodes u (String_type x)))) c
           else c)"
        by (simp add: validateInputUnionMember_def Let_def)
      show ?thesis
        using False eq_kind [of x]
        by (auto simp add: step Cons.IH count_list_append)
    qed
  qed
qed


lemma union_kind_errors_eq:
  "union_kind_errors u m ctx =
     (case find (\<lambda>x. type_name x = type_name m) (getTypes u) of
        None \<Rightarrow> 0
      | Some m0 \<Rightarrow> if isObjectType m0 then 0 else 1)"
proof (cases "getTypes u = []")
  case True
  then show ?thesis
    by (simp add: union_kind_errors_def emitted_def validateUnionMembers_def Let_def)
next
  case False
  then show ?thesis
    using union_loop_count [where u = u and m = m and ms = "getTypes u" and seen = "{}"
        and c = "ctx\<lparr>errors := []\<rparr>"]
    by (simp add: union_kind_errors_def emitted_def validateUnionMembers_def Let_def)
qed

lemma input_union_kind_errors_eq:
  "input_union_kind_errors iu m ctx =
     (case find (\<lambda>x. type_name x = type_name m) (getTypes iu) of
        None \<Rightarrow> 0
      | Some m0 \<Rightarrow> if isInputObjectType m0 then 0 else 1)"
proof (cases "getTypes iu = []")
  case True
  then show ?thesis
    by (simp add: input_union_kind_errors_def emitted_def validateInputUnionMembers_def Let_def)
next
  case False
  then show ?thesis
    using input_union_loop_count [where u = iu and m = m and ms = "getTypes iu" and seen = "{}"
        and c = "ctx\<lparr>errors := []\<rparr>"]
    by (simp add: input_union_kind_errors_def emitted_def validateInputUnionMembers_def Let_def)
qed

text \<open>
  Claim C1. Member types are told apart by their names, as the validator does. For a union
  \<open>u\<close> and any type \<open>m\<close>, the diagnostic "Union type u can only include Object types, it
  cannot include m." is reported once when the first member of \<open>u\<close> named like \<open>m\<close> is
  not an Object type, and not at all otherwise; for an input union \<open>iu\<close> the diagnostic
  "Input Union type iu can only include Input Object types, it cannot include m." is
  reported once when the first member named like \<open>m\<close> is not an Input Object type, and
  not at all otherwise. So a member \<open>m\<close> that is the only type of its name among the
  members yields exactly one such diagnostic when it is not of the required kind and none
  when it is, however often it is listed. No type is both an Object type and an Input
  Object type: an Input Object member of a union and an Object member of an input union
  are reported, and no type is accepted by both. Both validators only append to the
  diagnostics of the context.
\<close>

theorem member_kind_rules:
  "union_kind_errors u m ctx =
     (case find (\<lambda>x. type_name x = type_name m) (getTypes u) of
        None \<Rightarrow> 0
      | Some m0 \<Rightarrow> if isObjectType m0 then 0 else 1)
   \<and> input_union_kind_errors iu m ctx =
     (case find (\<lambda>x. type_name x = type_name m) (getTypes iu) of
        None \<Rightarrow> 0
      | Some m0 \<Rightarrow> if isInputObjectType m0 then 0 else 1)
   \<and> (m \<in> set (getTypes u) \<and> (\<forall>m'\<in>set (getTypes u). type_name m' = type_name m \<longrightarrow> m' = m)
        \<longrightarrow> union_kind_errors u m ctx = (if isObjectType m then 0 else 1))
   \<and> (m \<in> set (getTypes iu) \<and> (\<forall>m'\<in>set (getTypes iu). type_name m' = type_name m \<longrightarrow> m' = m)
        \<longrightarrow> input_union_kind_errors iu m ctx = (if isInputObjectType m then 0 else 1))
   \<and> \<not> (isObjectType m \<and> isInputObjectType m)
   \<and> errors (validateUnionMembers u ctx) = errors ctx @ emitted (validateUnionMembers u) ctx
   \<and> errors (validateInputUnionMembers iu ctx)
       = errors ctx @ emitted (validateInputUnionMembers iu) ctx"
proof -
  have "union_kind_errors u m ctx = (if isObjectType m then 0 else 1)"
    if "m \<in> set (getTypes u)" "\<forall>m'\<in>set (getTypes u). type_name m' = type_name m \<longrightarrow> m' = m"
    using find_identified [OF that] by (simp add: union_kind_errors_eq)
  moreover have "input_union_kind_errors iu m ctx = (if isInputObjectType m then 0 else 1)"
    if "m \<in> set (getTypes iu)" "\<forall>m'\<in>set (getTypes iu). type_name m' = type_name m \<longrightarrow> m' = m"
    using find_identified [OF that] by (simp add: input_union_kind_errors_eq)
  moreover have "\<not> (isObjectType m \<and> isInputObjectType m)"
    by (simp add: isObjectType_def isInputObjectType_def)
  ultimately show ?thesis
    using union_kind_errors_eq [of u m ctx] input_union_kind_errors_eq [of iu m ctx]
      appends_errors [OF appends_validateUnionMembers, of u ctx]
      appends_errors [OF appends_validateInputUnionMembers, of iu ctx]
    by blast
qed

lemmas ex_defs = example_env_def empty_context_def empty_schema_def new_context_def
  Int_ref_def String_ref_type_def bare_type_def arg_of_def field_of_def example_I_def
  example_O_def example_O2_def example_isValidNameError_def example_members_def
  example_union_def example_input_union_def

theorem member_kind_rules_witness:
  "union_kind_errors example_union (bare_type ''B'' InputObjectKind) empty_context = 1
   \<and> union_kind_errors example_union (bare_type ''S'' ScalarKind) empty_context = 1
   \<and> union_kind_errors example_union (bare_type ''A'' ObjectKind) empty_context = 0
   \<and> input_union_kind_errors example_input_union (bare_type ''A'' ObjectKind) empty_context = 1
   \<and> input_union_kind_errors example_input_union (bare_type ''S'' ScalarKind) empty_context = 1
   \<and> input_union_kind_errors example_input_union (bare_type ''B'' InputObjectKind) empty_context = 0
   \<and> map message (emitted (validateUnionMembers example_union) empty_context) =
       [''Union type U can only include Object types, it cannot include B.'',
        ''Union type U can only include type B once.'',
        ''Union type U can only include Object types, it cannot include S.'']"
  using member_kind_rules [of example_union "bare_type ''B'' InputObjectKind" empty_context
      example_input_union]
    member_kind_rules [of example_union "bare_type ''S'' ScalarKind" empty_context
      example_input_union]
    member_kind_rules [of example_union "bare_type ''A'' ObjectKind" empty_context
      example_input_union]
  by (simp add: ex_defs isObjectType_def isInputObjectType_def emitted_def
      validateUnionMembers_def validateUnionMember_def String_type_def Let_def)

section \<open>Root types\<close>

lemma validateRootTypes_errors:
  "errors (validateRootTypes ctx) =
     errors ctx
     @ (case getQueryType (ctx_schema ctx) of
          None \<Rightarrow>
            [\<lparr>message = ''Query root type must be provided.'',
              nodes = (case schema_astNode (ctx_schema ctx) of
                         None \<Rightarrow> []
                       | Some n \<Rightarrow> [SchemaDefinition n])\<rparr>]
        | Some queryType \<Rightarrow>
            if isObjectType queryType then []
            else [\<lparr>message = ''Query root type must be Object type, it cannot be ''
                               @ String_type queryType @ ''.'',
                    nodes = kept_nodes (SingleNode
                              (getOperationTypeNode (ctx_schema ctx) queryType ''query''))\<rparr>])
     @ (case getMutationType (ctx_schema ctx) of
          None \<Rightarrow> []
        | Some mutationType \<Rightarrow>
            if isObjectType mutationType then []
            else [\<lparr>message = ''Mutation root type must be Object type if provided, it cannot be ''
                               @ String_type mutationType @ ''.'',
                    nodes = kept_nodes (SingleNode
                              (getOperationTypeNode (ctx_schema ctx) mutationType ''mutation''))\<rparr>])
     @ (case getSubscriptionType (ctx_schema ctx) of
          None \<Rightarrow> []
        | Some subscriptionType \<Rightarrow>
            if isObjectType subscriptionType then []
            else [\<lparr>message = ''Subscription root type must be Object type if provided, it cannot be ''
                               @ String_type subscriptionType @ ''.'',
                    nodes = kept_nodes (SingleNode
                              (getOperationTypeNode (ctx_schema ctx) subscriptionType
                                 ''subscription''))\<rparr>])"
  by (simp add: validateRootTypes_def Let_def kept_nodes_def List.map_filter_simps
        split: option.splits)

lemma validateRootTypes_query_count:
  "getQueryType (ctx_schema ctx) = None \<Longrightarrow>
   count_list (map message (emitted validateRootTypes ctx)) ''Query root type must be provided.'' = 1"
  unfolding emitted_def validateRootTypes_errors
  by (simp add: count_list_append split: option.splits)

text \<open>
  Claim C6. \<open>validateRootTypes\<close> appends, in this order: for the query root, the diagnostic
  "Query root type must be provided." located at the schema's own AST node (when it has
  one) if the root is absent, and one diagnostic citing the root if it is present and
  not an Object type; for the mutation root and then for the subscription root, one
  diagnostic citing the root if it is present and not an Object type, and nothing if it
  is absent. With no query root, exactly one of the diagnostics reported has the message
  "Query root type must be provided.".
\<close>

theorem validateRootTypes_diagnostics:
  "errors (validateRootTypes ctx) =
     errors ctx
     @ (case getQueryType (ctx_schema ctx) of
          None \<Rightarrow>
            [\<lparr>message = ''Query root type must be provided.'',
              nodes = (case schema_astNode (ctx_schema ctx) of
                         None \<Rightarrow> []
                       | Some n \<Rightarrow> [SchemaDefinition n])\<rparr>]
        | Some queryType \<Rightarrow>
            if isObjectType queryType then []
            else [\<lparr>message = ''Query root type must be Object type, it cannot be ''
                               @ String_type queryType @ ''.'',
                    nodes = kept_nodes (SingleNode
                              (getOperationTypeNode (ctx_schema ctx) queryType ''query''))\<rparr>])
     @ (case getMutationType (ctx_schema ctx) of
          None \<Rightarrow> []
        | Some mutationType \<Rightarrow>
            if isObjectType mutationType then []
            else [\<lparr>message = ''Mutation root type must be Object type if provided, it cannot be ''
                               @ String_type mutationType @ ''.'',
                    nodes = kept_nodes (SingleNode
                              (getOperationTypeNode (ctx_schema ctx) mutationType ''mutation''))\<rparr>])
     @ (case getSubscriptionType (ctx_schema ctx) of
          None \<Rightarrow> []
        | Some subscriptionType \<Rightarrow>
            if isObjectType subscriptionType then []
            else [\<lparr>message = ''Subscription root type must be Object type if provided, it cannot be ''
                               @ String_type subscriptionType @ ''.'',
                    nodes = kept_nodes (SingleNode
                              (getOperationTypeNode (ctx_schema ctx) subscriptionType
                                 ''subscription''))\<rparr>])
   \<and> (getQueryType (ctx_schema ctx) = None \<longrightarrow>
        count_list (map message (emitted validateRootTypes ctx))
          ''Query root type must be provided.'' = 1)"
  using validateRootTypes_errors [of ctx] validateRootTypes_query_count [of ctx]
  by blast

theorem validateRootTypes_diagnostics_witness:
  "errors (validateRootTypes (new_context enum_root_schema)) =
     [\<lparr>message = ''Query root type must be provided.'',
       nodes = [SchemaDefinition \<lparr>sd_operationTypes = []\<rparr>]\<rparr>,
      \<lparr>message = ''Mutation root type must be Object type if provided, it cannot be E.'',
       nodes = []\<rparr>]
   \<and> count_list (map message (emitted validateRootTypes (new_context enum_root_schema)))
         ''Query root type must be provided.'' = 1
   \<and> errors (validateRootTypes (new_context valid_schema)) = []"
  using validateRootTypes_diagnostics [of "new_context enum_root_schema"]
    validateRootTypes_diagnostics [of "new_context valid_schema"]
  by (simp add: ex_defs enum_root_schema_def valid_schema_def example_Query_def
      isObjectType_def String_type_def kept_nodes_def getOperationTypeNode_def
      List.map_filter_simps)

section \<open>The entry points\<close>

text \<open>
  Claim C2. A schema whose cache cell is populated, with an empty list as with any other,
  is returned its cached list and is left unchanged. On a schema whose cell is empty the
  first call returns the diagnostics of root, directive and type validation, in this
  order. In either case the first call leaves the list it returns in the cache cell, and a
  second call, with whatever collaborators, returns that same list and leaves the schema
  as it is: nothing is validated again.
\<close>

theorem validateSchema_cached:
  "(\<forall>cached. validationErrors s = Some cached \<longrightarrow>
       validateSchema env (ASchema s) = (Inr cached, ASchema s))
   \<and> (validationErrors s = None \<longrightarrow>
       fst (validateSchema env (ASchema s)) =
         Inr (errors (validateTypes env (validateDirectives env
                (validateRootTypes (new_context s))))))
   \<and> (\<exists>errs. validateSchema env (ASchema s) = (Inr errs, ASchema (s\<lparr>validationErrors := Some errs\<rparr>))
         \<and> (\<forall>env'. validateSchema env' (ASchema (s\<lparr>validationErrors := Some errs\<rparr>))
                = (Inr errs, ASchema (s\<lparr>validationErrors := Some errs\<rparr>))))"
proof (cases "validationErrors s")
  case None
  then show ?thesis
    by (simp add: validateSchema_def Let_def getErrors_def)
next
  case (Some cached)
  then have "s\<lparr>validationErrors := Some cached\<rparr> = s" by simp
  with Some show ?thesis
    by (simp add: validateSchema_def)
qed

lemmas validate_defs = validateSchema_def validateRootTypes_def validateDirectives_def
  validateTypes_def validateType_def validateTypeKind_def validateFields_def validateField_def
  validateObjectInterfaces_def validateName_def getErrors_def reportError_def addError_def
  getAllFieldNodes_def getAllObjectOrInterfaceNodes_def isObjectType_def Let_def

theorem validateSchema_cached_witness:
  "validateSchema example_env (ASchema (valid_schema\<lparr>validationErrors := Some []\<rparr>))
     = (Inr [], ASchema (valid_schema\<lparr>validationErrors := Some []\<rparr>))
   \<and> validateSchema example_env (ASchema valid_schema)
     = (Inr [], ASchema (valid_schema\<lparr>validationErrors := Some []\<rparr>))
   \<and> fst (validateSchema example_env (ASchema empty_schema))
     = Inr [\<lparr>message = ''Query root type must be provided.'',
              nodes = [SchemaDefinition \<lparr>sd_operationTypes = []\<rparr>]\<rparr>]"
  using validateSchema_cached [of "valid_schema\<lparr>validationErrors := Some []\<rparr>" example_env]
    validateSchema_cached [of valid_schema example_env]
    validateSchema_cached [of empty_schema example_env]
  by (simp add: ex_defs valid_schema_def example_Query_def validate_defs
      List.map_filter_simps)

text \<open>
  Claim C7. On a schema, \<open>assertValidSchema\<close> throws an error exactly when the list of
  diagnostics \<open>validateSchema\<close> returns is not empty, and the message of the error is
  the messages of the diagnostics joined with two newlines; otherwise it returns. In both
  cases the schema is left as \<open>validateSchema\<close> leaves it: nothing but the cache cell
  differs from before.
\<close>

theorem assertValidSchema_outcome:
  "\<exists>errs arg'. validateSchema env (ASchema s) = (Inr errs, arg')
     \<and> assertValidSchema env (ASchema s) =
         ((if errs \<noteq> [] then Inl (Error (join [CHR 0x0A, CHR 0x0A] (map message errs)))
           else Inr ()), arg')
     \<and> (\<exists>s'. arg' = ASchema s' \<and> s'\<lparr>validationErrors := validationErrors s\<rparr> = s)"
proof (cases "validationErrors s")
  case None
  then show ?thesis
    by (simp add: assertValidSchema_def validateSchema_def Let_def)
next
  case (Some cached)
  then show ?thesis
    by (simp add: assertValidSchema_def validateSchema_def Let_def)
qed

theorem assertValidSchema_outcome_witness:
  "fst (assertValidSchema example_env (ASchema enum_root_schema))
     = Inl (Error (''Query root type must be provided.'' @ [CHR 0x0A, CHR 0x0A]
          @ ''Mutation root type must be Object type if provided, it cannot be E.''))
   \<and> assertValidSchema example_env (ASchema valid_schema)
     = (Inr (), ASchema (valid_schema\<lparr>validationErrors := Some []\<rparr>))"
  using assertValidSchema_outcome [of example_env enum_root_schema]
    assertValidSchema_outcome [of example_env valid_schema]
  by (simp add: assertValidSchema_def ex_defs enum_root_schema_def valid_schema_def
      example_Query_def validate_defs String_type_def getOperationTypeNode_def
      List.map_filter_simps)

section \<open>Every validator appends\<close>

lemma emitted_after: "appends g \<Longrightarrow> emitted f (g c) = emitted f c"
  by (rule emitted_cong) (simp add: appends_schema)

lemma emitted_errors_update [simp]: "emitted f (c\<lparr>errors := es\<rparr>) = emitted f c"
  by (rule emitted_cong) simp

lemmas reportError_simps [simp] = emitted_after [OF appends_reportError]
lemmas addError_simps [simp] = emitted_after [OF appends_addError]

lemmas validateName_simps [simp] =
  appends_errors [OF appends_validateName] appends_schema [OF appends_validateName]
  emitted_after [OF appends_validateName]

text \<open>Directives.\<close>

lemma appends_validateDirectiveArg:
  "appends (\<lambda>c. snd (validateDirectiveArg env d arg (seen, c)))"
  by (rule appendsI2) (simp_all add: validateDirectiveArg_def Let_def)

lemma fst_validateDirectiveArg:
  "fst (validateDirectiveArg env d arg (seen, c)) = insert (arg_name arg) seen"
  by (auto simp add: validateDirectiveArg_def Let_def)

lemma appends_directive_arg_loop:
  "appends (\<lambda>c. snd (fold (validateDirectiveArg env d) args (seen, c)))"
  by (rule appends_fold_seen) (simp_all add: appends_validateDirectiveArg fst_validateDirectiveArg)

lemmas directive_arg_loop_simps [simp] =
  appends_errors [OF appends_directive_arg_loop] appends_schema [OF appends_directive_arg_loop]
  emitted_after [OF appends_directive_arg_loop]

lemma appends_validateDirective: "appends (validateDirective env entry)"
  by (rule appendsI2) (simp_all add: validateDirective_def Let_def split: directive_entry.splits)

text \<open>Fields.\<close>

lemma appends_validateFieldArg:
  "appends (\<lambda>c. snd (validateFieldArg env t fn arg (seen, c)))"
  by (rule appendsI2) (simp_all add: validateFieldArg_def Let_def)

lemma fst_validateFieldArg:
  "fst (validateFieldArg env t fn arg (seen, c)) = insert (arg_name arg) seen"
  by (simp add: validateFieldArg_def Let_def)

lemma appends_field_arg_loop:
  "appends (\<lambda>c. snd (fold (validateFieldArg env t fn) args (seen, c)))"
  by (rule appends_fold_seen) (simp_all add: appends_validateFieldArg fst_validateFieldArg)

lemmas field_arg_loop_simps [simp] =
  appends_errors [OF appends_field_arg_loop] appends_schema [OF appends_field_arg_loop]
  emitted_after [OF appends_field_arg_loop]

lemma appends_validateField: "appends (validateField env t entry)"
  by (rule appendsI2) (simp_all add: validateField_def Let_def)

lemma appends_field_loop: "appends (fold (validateField env t) fs)"
  by (rule appends_fold) (rule appends_validateField)

lemmas field_loop_simps [simp] =
  appends_errors [OF appends_field_loop] appends_schema [OF appends_field_loop]
  emitted_after [OF appends_field_loop]

lemma appends_validateFields: "appends (validateFields env t)"
  by (rule appendsI2) (simp_all add: validateFields_def Let_def)

lemmas validateFields_simps [simp] =
  appends_errors [OF appends_validateFields] appends_schema [OF appends_validateFields]
  emitted_after [OF appends_validateFields]


text \<open>Objects implementing interfaces.\<close>

lemma appends_validateInterfaceArg:
  "appends (validateInterfaceArg env object iface fn objectField ifaceArg)"
  by (rule appendsI2) (simp_all add: validateInterfaceArg_def Let_def split: option.splits)

lemma appends_interface_arg_loop:
  "appends (fold (validateInterfaceArg env object iface fn objectField) args)"
  by (rule appends_fold) (rule appends_validateInterfaceArg)

lemmas interface_arg_loop_simps [simp] =
  appends_errors [OF appends_interface_arg_loop] appends_schema [OF appends_interface_arg_loop]
  emitted_after [OF appends_interface_arg_loop]

lemma appends_validateAdditionalArg:
  "appends (validateAdditionalArg env object iface fn ifaceField objectArg)"
  by (rule appendsI2) (simp_all add: validateAdditionalArg_def Let_def)

lemma appends_additional_arg_loop:
  "appends (fold (validateAdditionalArg env object iface fn ifaceField) args)"
  by (rule appends_fold) (rule appends_validateAdditionalArg)

lemmas additional_arg_loop_simps [simp] =
  appends_errors [OF appends_additional_arg_loop] appends_schema [OF appends_additional_arg_loop]
  emitted_after [OF appends_additional_arg_loop]

lemma appends_validateInterfaceField: "appends (validateInterfaceField env object iface entry)"
  by (rule appendsI2) (simp_all add: validateInterfaceField_def Let_def split: option.splits)

lemma appends_interface_field_loop:
  "appends (fold (validateInterfaceField env object iface) fs)"
  by (rule appends_fold) (rule appends_validateInterfaceField)

lemmas interface_field_loop_simps [simp] =
  appends_errors [OF appends_interface_field_loop] appends_schema [OF appends_interface_field_loop]
  emitted_after [OF appends_interface_field_loop]

lemma appends_validateObjectImplementsInterface:
  "appends (validateObjectImplementsInterface env object iface)"
  by (rule appendsI2) (simp_all add: validateObjectImplementsInterface_def)

lemmas validateObjectImplementsInterface_simps [simp] =
  appends_errors [OF appends_validateObjectImplementsInterface]
  appends_schema [OF appends_validateObjectImplementsInterface]
  emitted_after [OF appends_validateObjectImplementsInterface]

lemma appends_validateObjectInterface:
  "appends (\<lambda>c. snd (validateObjectInterface env object iface (seen, c)))"
  by (rule appendsI2) (simp_all add: validateObjectInterface_def Let_def)

lemma fst_validateObjectInterface:
  "fst (validateObjectInterface env object iface (seen, c)) = insert (type_name iface) seen"
  by (auto simp add: validateObjectInterface_def Let_def)

lemma appends_object_interface_loop:
  "appends (\<lambda>c. snd (fold (validateObjectInterface env object) ifaces (seen, c)))"
  by (rule appends_fold_seen)
     (simp_all add: appends_validateObjectInterface fst_validateObjectInterface)

lemma appends_validateObjectInterfaces: "appends (validateObjectInterfaces env object)"
  unfolding validateObjectInterfaces_def by (rule appends_object_interface_loop)

lemmas validateObjectInterfaces_simps [simp] =
  appends_errors [OF appends_validateObjectInterfaces]
  appends_schema [OF appends_validateObjectInterfaces]
  emitted_after [OF appends_validateObjectInterfaces]

text \<open>Enum values and input object fields.\<close>

lemma appends_validateEnumValue: "appends (validateEnumValue env t v)"
  by (rule appendsI2) (simp_all add: validateEnumValue_def Let_def split: option.splits)

lemma appends_enum_value_loop: "appends (fold (validateEnumValue env t) vs)"
  by (rule appends_fold) (rule appends_validateEnumValue)

lemmas enum_value_loop_simps [simp] =
  appends_errors [OF appends_enum_value_loop] appends_schema [OF appends_enum_value_loop]
  emitted_after [OF appends_enum_value_loop]

lemma appends_validateEnumValues: "appends (validateEnumValues env t)"
  by (rule appendsI2) (simp_all add: validateEnumValues_def Let_def)

lemmas validateEnumValues_simps [simp] =
  appends_errors [OF appends_validateEnumValues] appends_schema [OF appends_validateEnumValues]
  emitted_after [OF appends_validateEnumValues]

lemma appends_validateInputField: "appends (validateInputField env t entry)"
  by (rule appendsI2) (simp_all add: validateInputField_def Let_def)

lemma appends_input_field_loop: "appends (fold (validateInputField env t) fs)"
  by (rule appends_fold) (rule appends_validateInputField)

lemmas input_field_loop_simps [simp] =
  appends_errors [OF appends_input_field_loop] appends_schema [OF appends_input_field_loop]
  emitted_after [OF appends_input_field_loop]

lemma appends_validateInputFields: "appends (validateInputFields env t)"
  by (rule appendsI2) (simp_all add: validateInputFields_def Let_def)

lemmas validateInputFields_simps [simp] =
  appends_errors [OF appends_validateInputFields] appends_schema [OF appends_validateInputFields]
  emitted_after [OF appends_validateInputFields]

text \<open>The type map, the directives and the root types.\<close>

lemmas validateUnionMembers_simps [simp] =
  appends_errors [OF appends_validateUnionMembers] appends_schema [OF appends_validateUnionMembers]
  emitted_after [OF appends_validateUnionMembers]

lemmas validateInputUnionMembers_simps [simp] =
  appends_errors [OF appends_validateInputUnionMembers]
  appends_schema [OF appends_validateInputUnionMembers]
  emitted_after [OF appends_validateInputUnionMembers]

lemma appends_validateTypeKind: "appends (validateTypeKind env t)"
  by (rule appendsI2) (simp_all add: validateTypeKind_def)

lemmas validateTypeKind_simps [simp] =
  appends_errors [OF appends_validateTypeKind] appends_schema [OF appends_validateTypeKind]
  emitted_after [OF appends_validateTypeKind]

lemma appends_validateType: "appends (validateType env entry)"
  by (rule appendsI2) (simp_all add: validateType_def Let_def split: type_entry.splits)

lemma appends_type_loop: "appends (fold (validateType env) ts)"
  by (rule appends_fold) (rule appends_validateType)

lemmas type_loop_simps [simp] =
  appends_errors [OF appends_type_loop] appends_schema [OF appends_type_loop]
  emitted_after [OF appends_type_loop]

lemma appends_validateTypes: "appends (validateTypes env)"
  by (rule appendsI2) (simp_all add: validateTypes_def)

lemma appends_directive_loop: "appends (fold (validateDirective env) ds)"
  by (rule appends_fold) (rule appends_validateDirective)

lemmas directive_loop_simps [simp] =
  appends_errors [OF appends_directive_loop] appends_schema [OF appends_directive_loop]
  emitted_after [OF appends_directive_loop]

lemma appends_validateDirectives: "appends (validateDirectives env)"
  by (rule appendsI2) (simp_all add: validateDirectives_def)

lemma appends_validateRootTypes: "appends validateRootTypes"
  by (rule appendsI2) (simp_all add: validateRootTypes_def Let_def split: option.splits)

section \<open>Name validation\<close>

lemma emitted_fold_seen_Cons:
  assumes ap: "\<And>x seen. appends (\<lambda>c. snd (step x (seen, c)))"
    and nxt: "\<And>x seen c. fst (step x (seen, c)) = nxt x seen"
  shows "emitted (\<lambda>c. snd (fold step (x # xs) (seen, c))) ctx
         = emitted (\<lambda>c. snd (step x (seen, c))) ctx
           @ emitted (\<lambda>c. snd (fold step xs (nxt x seen, c))) ctx"
proof -
  have st: "step x (seen, c) = (nxt x seen, snd (step x (seen, c)))" for c
    using nxt [of x seen c] by (simp add: prod_eq_iff)
  have loop: "appends (\<lambda>c. snd (fold step xs (nxt x seen, c)))"
    by (rule appends_fold_seen) (simp_all add: ap nxt)
  have "emitted (\<lambda>c. snd (fold step xs (nxt x seen, snd (step x (seen, c))))) ctx
        = emitted (\<lambda>c. snd (step x (seen, c))) ctx
          @ emitted (\<lambda>c. snd (fold step xs (nxt x seen, c))) ctx"
    by (rule emitted_comp [OF ap loop])
  then show ?thesis using st by simp
qed

lemma emitted_id' [simp]: "emitted id ctx = []"
  by (simp add: emitted_def)

lemma name_error_emitted:
  assumes "not_allowed_legacy (ctx_schema ctx) name" and "isValidNameError env name node = Some e"
  shows "emitted (validateName env name node) ctx = [e]"
  using assms by (simp add: emitted_validateName not_allowed_legacy_def split: option.splits)

lemma field_name_checked:
  assumes "not_allowed_legacy (ctx_schema ctx) (field_name f)"
    and "isValidNameError env (field_name f) (field_astNode f) = Some e"
  shows "e \<in> set (emitted (validateField env t (fn, f)) ctx)"
  using name_error_emitted [OF assms]
  by (simp add: emitted_def [of "validateField env t (fn, f)"] validateField_def Let_def)

lemma in_emitted_fold:
  assumes "\<And>x. appends (step x)" and "x \<in> set xs" and "e \<in> set (emitted (step x) ctx)"
  shows "e \<in> set (emitted (fold step xs) ctx)"
  using assms by (auto simp add: emitted_fold)

lemma fields_name_checked:
  assumes "(fn, f) \<in> set (getFields t)"
    and "not_allowed_legacy (ctx_schema ctx) (field_name f)"
    and "isValidNameError env (field_name f) (field_astNode f) = Some e"
  shows "e \<in> set (emitted (validateFields env t) ctx)"
proof -
  have "e \<in> set (emitted (fold (validateField env t) (getFields t)) ctx)"
    by (rule in_emitted_fold [OF appends_validateField assms(1)])
       (rule field_name_checked [OF assms(2,3)])
  then show ?thesis
    using assms(1)
    by (auto simp add: emitted_def [of "validateFields env t"] validateFields_def Let_def)
qed

lemma arg_name_checked:
  assumes "not_allowed_legacy (ctx_schema ctx) (arg_name a)"
    and "isValidNameError env (arg_name a) (arg_astNode a) = Some e"
  shows "e \<in> set (emitted (\<lambda>c. snd (validateFieldArg env t fn a (seen, c))) ctx)"
  using name_error_emitted [OF assms]
  by (subst emitted_def) (simp add: validateFieldArg_def Let_def)

lemma arg_loop_name_checked:
  assumes "a \<in> set args"
    and "not_allowed_legacy (ctx_schema ctx) (arg_name a)"
    and "isValidNameError env (arg_name a) (arg_astNode a) = Some e"
  shows "e \<in> set (emitted (\<lambda>c. snd (fold (validateFieldArg env t fn) args (seen, c))) ctx)"
  using assms(1)
proof (induction args arbitrary: seen)
  case Nil
  then show ?case by simp
next
  case (Cons x xs)
  have split: "emitted (\<lambda>c. snd (fold (validateFieldArg env t fn) (x # xs) (seen, c))) ctx
      = emitted (\<lambda>c. snd (validateFieldArg env t fn x (seen, c))) ctx
        @ emitted (\<lambda>c. snd (fold (validateFieldArg env t fn) xs (insert (arg_name x) seen, c))) ctx"
    by (rule emitted_fold_seen_Cons [OF appends_validateFieldArg fst_validateFieldArg])
  show ?case
  proof (cases "a = x")
    case True
    then show ?thesis
      using arg_name_checked [OF assms(2,3), of t fn seen] by (simp only: split set_append UnI1)
  next
    case False
    with Cons.prems have "a \<in> set xs" by simp
    then show ?thesis
      using Cons.IH [of "insert (arg_name x) seen"] by (simp only: split set_append UnI2)
  qed
qed

lemma field_arg_name_checked:
  assumes "length (getAllFieldNodes t fn) \<le> 1" and "a \<in> set (field_args f)"
    and "not_allowed_legacy (ctx_schema ctx) (arg_name a)"
    and "isValidNameError env (arg_name a) (arg_astNode a) = Some e"
  shows "e \<in> set (emitted (validateField env t (fn, f)) ctx)"
  using arg_loop_name_checked [OF assms(2,3,4)] assms(1)
  by (simp add: emitted_def [of "validateField env t (fn, f)"] validateField_def Let_def)

lemma fields_arg_name_checked:
  assumes "(fn, f) \<in> set (getFields t)"
    and "length (getAllFieldNodes t fn) \<le> 1" and "a \<in> set (field_args f)"
    and "not_allowed_legacy (ctx_schema ctx) (arg_name a)"
    and "isValidNameError env (arg_name a) (arg_astNode a) = Some e"
  shows "e \<in> set (emitted (validateFields env t) ctx)"
proof -
  have "e \<in> set (emitted (fold (validateField env t) (getFields t)) ctx)"
    by (rule in_emitted_fold [OF appends_validateField assms(1)])
       (rule field_arg_name_checked [OF assms(2-5)])
  then show ?thesis
    using assms(1)
    by (auto simp add: emitted_def [of "validateFields env t"] validateFields_def Let_def)
qed

lemma enum_value_name_checked:
  assumes "v \<in> set (getValues t)"
    and "not_allowed_legacy (ctx_schema ctx) (enum_value_name v)"
    and "isValidNameError env (enum_value_name v) (enum_value_astNode v) = Some e"
  shows "e \<in> set (emitted (validateEnumValues env t) ctx)"
proof -
  have "e \<in> set (emitted (validateEnumValue env t v) ctx)"
    using name_error_emitted [OF assms(2,3)]
    by (subst emitted_def) (auto simp add: validateEnumValue_def Let_def split: option.splits)
  then have "e \<in> set (emitted (fold (validateEnumValue env t) (getValues t)) ctx)"
    by (rule in_emitted_fold [OF appends_validateEnumValue assms(1)])
  then show ?thesis
    using assms(1)
    by (auto simp add: emitted_def [of "validateEnumValues env t"] validateEnumValues_def Let_def)
qed

lemma validateType_fields:
  assumes "isObjectType t \<or> isInterfaceType t"
    and "e \<in> set (emitted (validateFields env t) ctx)"
  shows "e \<in> set (errors (validateType env (k, IsNamedType t) ctx))"
  using assms by (auto simp add: validateType_def validateTypeKind_def Let_def)

lemma validateType_enum_values:
  assumes "isEnumType t"
    and "e \<in> set (emitted (validateEnumValues env t) ctx)"
  shows "e \<in> set (errors (validateType env (k, IsNamedType t) ctx))"
  using assms
  by (auto simp add: validateType_def validateTypeKind_def Let_def isEnumType_def
      isObjectType_def isInterfaceType_def isUnionType_def isInputUnionType_def)


lemma example_env_simps [simp]:
  "isInputType example_env t \<longleftrightarrow> example_named_kind t \<in> {ScalarKind, EnumKind, InputObjectKind}"
  "isOutputType example_env t \<longleftrightarrow>
     example_named_kind t \<in> {ScalarKind, ObjectKind, InterfaceKind, UnionKind, EnumKind}"
  "isEqualType example_env r r' \<longleftrightarrow> r = r'"
  "isTypeSubTypeOf example_env s r r' \<longleftrightarrow> r = r' \<or> r = NonNullOf r'"
  "isIntrospectionType example_env nt \<longleftrightarrow> type_name nt \<in> set [''__Schema'', ''__Directive'',
         ''__DirectiveLocation'', ''__Type'', ''__Field'', ''__InputValue'', ''__EnumValue'',
         ''__TypeKind'']"
  "isValidNameError example_env = example_isValidNameError"
  "String_ref example_env = example_String"
  by (simp_all add: example_env_def)

lemmas ex_data_defs = empty_context_def empty_schema_def new_context_def
  Int_ref_def String_ref_type_def bare_type_def arg_of_def field_of_def example_I_def
  example_O_def example_O2_def example_isValidNameError_def example_members_def
  example_union_def example_input_union_def example_introspection_type_def

section \<open>Objects implementing interfaces\<close>

lemma emitted_validateInterfaceArg_present:
  assumes "find (\<lambda>arg. arg_name arg = arg_name ifaceArg) (field_args objectField) = Some objectArg"
  shows "emitted (validateInterfaceArg env object iface fn objectField ifaceArg) ctx =
     (if isEqualType env (arg_type ifaceArg) (arg_type objectArg) then []
      else [\<lparr>message = ''Interface field argument '' @ type_name iface @ ''.'' @ fn @ ''(''
                 @ arg_name ifaceArg @ '':) expects type '' @ String_ref env (arg_type ifaceArg)
                 @ '' but '' @ type_name object @ ''.'' @ fn @ ''('' @ arg_name ifaceArg
                 @ '':) is type '' @ String_ref env (arg_type objectArg) @ ''.'',
              nodes = kept_nodes (NodeArray
                 [map_option TypeN (getFieldArgTypeNode iface fn (arg_name ifaceArg)),
                  map_option TypeN (getFieldArgTypeNode object fn (arg_name ifaceArg))])\<rparr>])"
  using assms by (simp add: emitted_def validateInterfaceArg_def Let_def)

lemma emitted_validateInterfaceField_present:
  assumes "map_of (getFields object) fn = Some objectField"
  shows "emitted (validateInterfaceField env object iface (fn, ifaceField)) ctx =
     (if isTypeSubTypeOf env (ctx_schema ctx) (field_type objectField) (field_type ifaceField)
      then []
      else [\<lparr>message = ''Interface field '' @ type_name iface @ ''.'' @ fn
                 @ '' expects type '' @ String_ref env (field_type ifaceField)
                 @ '' but '' @ type_name object @ ''.'' @ fn
                 @ '' is type '' @ String_ref env (field_type objectField) @ ''.'',
              nodes = kept_nodes (NodeArray
                 [map_option TypeN (getFieldTypeNode iface fn),
                  map_option TypeN (getFieldTypeNode object fn)])\<rparr>])
     @ concat (map (\<lambda>a. emitted (validateInterfaceArg env object iface fn objectField a) ctx)
                 (field_args ifaceField))
     @ concat (map (\<lambda>a. emitted (validateAdditionalArg env object iface fn ifaceField a) ctx)
                 (field_args objectField))"
proof -
  have "emitted (validateInterfaceField env object iface (fn, ifaceField)) ctx =
     (if isTypeSubTypeOf env (ctx_schema ctx) (field_type objectField) (field_type ifaceField)
      then []
      else [\<lparr>message = ''Interface field '' @ type_name iface @ ''.'' @ fn
                 @ '' expects type '' @ String_ref env (field_type ifaceField)
                 @ '' but '' @ type_name object @ ''.'' @ fn
                 @ '' is type '' @ String_ref env (field_type objectField) @ ''.'',
              nodes = kept_nodes (NodeArray
                 [map_option TypeN (getFieldTypeNode iface fn),
                  map_option TypeN (getFieldTypeNode object fn)])\<rparr>])
     @ emitted (fold (validateInterfaceArg env object iface fn objectField)
                 (field_args ifaceField)) ctx
     @ emitted (fold (validateAdditionalArg env object iface fn ifaceField)
                 (field_args objectField)) ctx"
    using assms
    by (subst emitted_def) (simp add: validateInterfaceField_def Let_def)
  then show ?thesis
    by (simp only: emitted_fold [OF appends_validateInterfaceArg]
        emitted_fold [OF appends_validateAdditionalArg])
qed

lemma emitted_validateObjectImplementsInterface:
  assumes "isInterfaceType iface"
  shows "emitted (validateObjectImplementsInterface env object iface) ctx =
     concat (map (\<lambda>entry. emitted (validateInterfaceField env object iface entry) ctx)
               (getFields iface))"
proof -
  have "emitted (validateObjectImplementsInterface env object iface) ctx =
      emitted (fold (validateInterfaceField env object iface) (getFields iface)) ctx"
    using assms by (subst emitted_def) (simp add: validateObjectImplementsInterface_def)
  then show ?thesis
    by (simp only: emitted_fold [OF appends_validateInterfaceField])
qed


text \<open>
  Claim C4. For an object claiming an interface and a field both declare: for an argument
  of the interface's field that the object's field declares too, a diagnostic is reported
  exactly when the two argument types are not equal under \<open>isEqualType\<close>, and it cites
  both types; the diagnostics for the field are, in this order, the type-mismatch
  diagnostic citing both declared types, reported exactly when the object field's type is
  not a subtype of the interface field's type under \<open>isTypeSubTypeOf\<close>, then those of the
  interface's arguments, then those of the object's arguments. When the interface is an
  Interface type, the diagnostics of the conformance check are those of its fields, in
  order.
\<close>

theorem interface_field_variance:
  "(find (\<lambda>arg. arg_name arg = arg_name ifaceArg) (field_args objectField) = Some objectArg \<longrightarrow>
      emitted (validateInterfaceArg env object iface fn objectField ifaceArg) ctx =
        (if isEqualType env (arg_type ifaceArg) (arg_type objectArg) then []
         else [\<lparr>message = ''Interface field argument '' @ type_name iface @ ''.'' @ fn @ ''(''
                 @ arg_name ifaceArg @ '':) expects type '' @ String_ref env (arg_type ifaceArg)
                 @ '' but '' @ type_name object @ ''.'' @ fn @ ''('' @ arg_name ifaceArg
                 @ '':) is type '' @ String_ref env (arg_type objectArg) @ ''.'',
                 nodes = kept_nodes (NodeArray
                   [map_option TypeN (getFieldArgTypeNode iface fn (arg_name ifaceArg)),
                    map_option TypeN (getFieldArgTypeNode object fn (arg_name ifaceArg))])\<rparr>]))
   \<and> (map_of (getFields object) fn = Some objectField \<longrightarrow>
      emitted (validateInterfaceField env object iface (fn, ifaceField)) ctx =
        (if isTypeSubTypeOf env (ctx_schema ctx) (field_type objectField) (field_type ifaceField)
         then []
         else [\<lparr>message = ''Interface field '' @ type_name iface @ ''.'' @ fn
                 @ '' expects type '' @ String_ref env (field_type ifaceField)
                 @ '' but '' @ type_name object @ ''.'' @ fn
                 @ '' is type '' @ String_ref env (field_type objectField) @ ''.'',
                 nodes = kept_nodes (NodeArray
                   [map_option TypeN (getFieldTypeNode iface fn),
                    map_option TypeN (getFieldTypeNode object fn)])\<rparr>])
        @ concat (map (\<lambda>a. emitted (validateInterfaceArg env object iface fn objectField a) ctx)
                    (field_args ifaceField))
        @ concat (map (\<lambda>a. emitted (validateAdditionalArg env object iface fn ifaceField a) ctx)
                    (field_args objectField)))
   \<and> (isInterfaceType iface \<longrightarrow>
      emitted (validateObjectImplementsInterface env object iface) ctx =
        concat (map (\<lambda>entry. emitted (validateInterfaceField env object iface entry) ctx)
                  (getFields iface)))
   \<and> errors (validateObjectImplementsInterface env object iface ctx) =
        errors ctx @ emitted (validateObjectImplementsInterface env object iface) ctx"
  using emitted_validateInterfaceArg_present [of ifaceArg objectField objectArg env object iface fn ctx]
    emitted_validateInterfaceField_present [of object fn objectField env iface ifaceField ctx]
    emitted_validateObjectImplementsInterface [of iface env object ctx]
    appends_errors [OF appends_validateObjectImplementsInterface, of env object iface ctx]
  by blast

lemmas conformance_defs = validateObjectImplementsInterface_def validateInterfaceField_def
  validateInterfaceArg_def validateAdditionalArg_def isInterfaceType_def Let_def
  getFieldArgTypeNode_def getFieldArgNode_def getAllFieldArgNodes_def getFieldNode_def
  getAllFieldNodes_def getAllObjectOrInterfaceNodes_def getFieldTypeNode_def kept_nodes_def
  List.map_filter_simps

theorem interface_field_variance_witness:
  "emitted (validateInterfaceArg example_env example_O3 example_I ''f''
       (snd (field_of ''f'' Int_ref [arg_of ''a'' String_ref_type])) (arg_of ''a'' Int_ref))
     empty_context
     = [\<lparr>message = ''Interface field argument I.f(a:) expects type Int but O3.f(a:) is type String.'',
         nodes = []\<rparr>]
   \<and> emitted (validateInterfaceArg example_env example_O example_I ''f''
       (snd (field_of ''f'' String_ref_type [arg_of ''a'' Int_ref, arg_of ''b'' Int_ref]))
       (arg_of ''a'' Int_ref))
     empty_context = []
   \<and> map message (errors (validateObjectImplementsInterface example_env example_O3 example_I
        empty_context))
     = [''Interface field I.f expects type String but O3.f is type Int.'',
        ''Interface field argument I.f(a:) expects type Int but O3.f(a:) is type String.'']
   \<and> errors (validateObjectImplementsInterface example_env example_O4 example_I empty_context)
     = []"
proof -
  have 1: "emitted (validateInterfaceArg example_env example_O3 example_I ''f''
       (snd (field_of ''f'' Int_ref [arg_of ''a'' String_ref_type])) (arg_of ''a'' Int_ref))
     empty_context
     = [\<lparr>message = ''Interface field argument I.f(a:) expects type Int but O3.f(a:) is type String.'',
         nodes = []\<rparr>]"
    using interface_field_variance [where env = example_env and object = example_O3
        and iface = example_I and fn = "''f''" and ctx = empty_context
        and objectField = "snd (field_of ''f'' Int_ref [arg_of ''a'' String_ref_type])"
        and ifaceArg = "arg_of ''a'' Int_ref" and objectArg = "arg_of ''a'' String_ref_type",
        THEN conjunct1]
    by (simp add: ex_data_defs example_O3_def conformance_defs)
  have 2: "emitted (validateInterfaceArg example_env example_O example_I ''f''
       (snd (field_of ''f'' String_ref_type [arg_of ''a'' Int_ref, arg_of ''b'' Int_ref]))
       (arg_of ''a'' Int_ref))
     empty_context = []"
    using interface_field_variance [where env = example_env and object = example_O
        and iface = example_I and fn = "''f''" and ctx = empty_context
        and objectField = "snd (field_of ''f'' String_ref_type
                                  [arg_of ''a'' Int_ref, arg_of ''b'' Int_ref])"
        and ifaceArg = "arg_of ''a'' Int_ref" and objectArg = "arg_of ''a'' Int_ref",
        THEN conjunct1]
    by (simp add: ex_data_defs conformance_defs)
  have 3: "map message (errors (validateObjectImplementsInterface example_env example_O3 example_I
        empty_context))
     = [''Interface field I.f expects type String but O3.f is type Int.'',
        ''Interface field argument I.f(a:) expects type Int but O3.f(a:) is type String.'']"
    by (simp add: ex_data_defs example_O3_def conformance_defs reportError_def addError_def)
  have 4: "errors (validateObjectImplementsInterface example_env example_O4 example_I
        empty_context) = []"
    by (simp add: ex_data_defs example_O4_def conformance_defs reportError_def addError_def)
  show ?thesis using 1 2 3 4 by blast
qed


lemma emitted_validateAdditionalArg:
  "emitted (validateAdditionalArg env object iface fn ifaceField objectArg) ctx =
     (if find (\<lambda>arg. arg_name arg = arg_name objectArg) (field_args ifaceField) = None
         \<and> isNonNullType (arg_type objectArg)
      then [\<lparr>message = ''Object field argument '' @ type_name object @ ''.'' @ fn @ ''(''
                @ arg_name objectArg @ '':) is of required type ''
                @ String_ref env (arg_type objectArg)
                @ '' but is not also provided by the Interface field '' @ type_name iface
                @ ''.'' @ fn @ ''.'',
              nodes = kept_nodes (NodeArray
                [map_option TypeN (getFieldArgTypeNode object fn (arg_name objectArg)),
                 map_option FieldDefinition (getFieldNode iface fn)])\<rparr>]
      else [])"
  by (simp add: emitted_def validateAdditionalArg_def Let_def)

lemma length_additional_arg_loop:
  "length (emitted (fold (validateAdditionalArg env object iface fn ifaceField) args) ctx) =
     length (filter (\<lambda>a. find (\<lambda>arg. arg_name arg = arg_name a) (field_args ifaceField) = None
                          \<and> isNonNullType (arg_type a)) args)"
  unfolding emitted_fold [OF appends_validateAdditionalArg]
  by (induction args) (simp_all add: emitted_validateAdditionalArg)

text \<open>
  Claim C5. For an object implementing an interface and a field both declare, an argument
  of the object's field that the interface's field does not declare yields exactly one
  diagnostic when its type is a non-null type and none otherwise, and an argument the
  interface's field declares yields none here; so the loop over the object field's
  arguments reports as many diagnostics as there are additional arguments of a non-null
  type.
\<close>

theorem additional_arguments:
  "(find (\<lambda>arg. arg_name arg = arg_name objectArg) (field_args ifaceField) = None \<longrightarrow>
      emitted (validateAdditionalArg env object iface fn ifaceField objectArg) ctx =
        (if isNonNullType (arg_type objectArg)
         then [\<lparr>message = ''Object field argument '' @ type_name object @ ''.'' @ fn @ ''(''
                   @ arg_name objectArg @ '':) is of required type ''
                   @ String_ref env (arg_type objectArg)
                   @ '' but is not also provided by the Interface field '' @ type_name iface
                   @ ''.'' @ fn @ ''.'',
                 nodes = kept_nodes (NodeArray
                   [map_option TypeN (getFieldArgTypeNode object fn (arg_name objectArg)),
                    map_option FieldDefinition (getFieldNode iface fn)])\<rparr>]
         else []))
   \<and> (find (\<lambda>arg. arg_name arg = arg_name objectArg) (field_args ifaceField) \<noteq> None \<longrightarrow>
      emitted (validateAdditionalArg env object iface fn ifaceField objectArg) ctx = [])
   \<and> length (emitted (fold (validateAdditionalArg env object iface fn ifaceField) args) ctx) =
       length (filter (\<lambda>a. find (\<lambda>arg. arg_name arg = arg_name a) (field_args ifaceField) = None
                            \<and> isNonNullType (arg_type a)) args)"
  using emitted_validateAdditionalArg [of env object iface fn ifaceField objectArg ctx]
    length_additional_arg_loop [of env object iface fn ifaceField args ctx]
  by simp

theorem additional_arguments_witness:
  "emitted (validateAdditionalArg example_env example_O2 example_I ''f''
       (snd (field_of ''f'' String_ref_type [arg_of ''a'' Int_ref]))
       (arg_of ''b'' (NonNullOf Int_ref))) empty_context
     = [\<lparr>message = ''Object field argument O2.f(b:) is of required type Int! but is not also provided by the Interface field I.f.'',
         nodes = []\<rparr>]
   \<and> emitted (validateAdditionalArg example_env example_O example_I ''f''
       (snd (field_of ''f'' String_ref_type [arg_of ''a'' Int_ref]))
       (arg_of ''b'' Int_ref)) empty_context = []
   \<and> emitted (validateAdditionalArg example_env example_O2 example_I ''f''
       (snd (field_of ''f'' String_ref_type [arg_of ''a'' Int_ref]))
       (arg_of ''a'' Int_ref)) empty_context = []
   \<and> errors (validateObjectImplementsInterface example_env example_O example_I empty_context)
     = []
   \<and> map message (errors (validateObjectImplementsInterface example_env example_O2 example_I
        empty_context))
     = [''Object field argument O2.f(b:) is of required type Int! but is not also provided by the Interface field I.f.'']"
proof -
  have 1: "emitted (validateAdditionalArg example_env example_O2 example_I ''f''
       (snd (field_of ''f'' String_ref_type [arg_of ''a'' Int_ref]))
       (arg_of ''b'' (NonNullOf Int_ref))) empty_context
     = [\<lparr>message = ''Object field argument O2.f(b:) is of required type Int! but is not also provided by the Interface field I.f.'',
         nodes = []\<rparr>]"
    using additional_arguments [where env = example_env and object = example_O2
        and iface = example_I and fn = "''f''" and ctx = empty_context
        and ifaceField = "snd (field_of ''f'' String_ref_type [arg_of ''a'' Int_ref])"
        and objectArg = "arg_of ''b'' (NonNullOf Int_ref)", THEN conjunct1]
    by (simp add: ex_data_defs conformance_defs)
  have 2: "emitted (validateAdditionalArg example_env example_O example_I ''f''
       (snd (field_of ''f'' String_ref_type [arg_of ''a'' Int_ref]))
       (arg_of ''b'' Int_ref)) empty_context = []"
    using additional_arguments [where env = example_env and object = example_O
        and iface = example_I and fn = "''f''" and ctx = empty_context
        and ifaceField = "snd (field_of ''f'' String_ref_type [arg_of ''a'' Int_ref])"
        and objectArg = "arg_of ''b'' Int_ref", THEN conjunct1]
    by (simp add: ex_data_defs conformance_defs)
  have 3: "emitted (validateAdditionalArg example_env example_O2 example_I ''f''
       (snd (field_of ''f'' String_ref_type [arg_of ''a'' Int_ref]))
       (arg_of ''a'' Int_ref)) empty_context = []"
    using additional_arguments [where env = example_env and object = example_O2
        and iface = example_I and fn = "''f''" and ctx = empty_context
        and ifaceField = "snd (field_of ''f'' String_ref_type [arg_of ''a'' Int_ref])"
        and objectArg = "arg_of ''a'' Int_ref", THEN conjunct2, THEN conjunct1]
    by (simp add: ex_data_defs conformance_defs)
  have 4: "errors (validateObjectImplementsInterface example_env example_O example_I
        empty_context) = []"
    by (simp add: ex_data_defs conformance_defs reportError_def addError_def)
  have 5: "map message (errors (validateObjectImplementsInterface example_env example_O2
        example_I empty_context))
     = [''Object field argument O2.f(b:) is of required type Int! but is not also provided by the Interface field I.f.'']"
    by (simp add: ex_data_defs conformance_defs reportError_def addError_def)
  show ?thesis using 1 2 3 4 5 by blast
qed

section \<open>Duplicates\<close>

lemma emitted_fold_seen_append:
  assumes ap: "\<And>x seen. appends (\<lambda>c. snd (step x (seen, c)))"
    and nxt: "\<And>x seen c. fst (step x (seen, c)) = insert (nm x) seen"
  shows "emitted (\<lambda>c. snd (fold step (pre @ xs) (seen, c))) ctx
         = emitted (\<lambda>c. snd (fold step pre (seen, c))) ctx
           @ emitted (\<lambda>c. snd (fold step xs (seen \<union> nm ` set pre, c))) ctx"
proof (induction pre arbitrary: seen)
  case Nil
  then show ?case by simp
next
  case (Cons p pre)
  have a: "emitted (\<lambda>c. snd (fold step (p # (pre @ xs)) (seen, c))) ctx
      = emitted (\<lambda>c. snd (step p (seen, c))) ctx
        @ emitted (\<lambda>c. snd (fold step (pre @ xs) (insert (nm p) seen, c))) ctx"
    by (rule emitted_fold_seen_Cons [OF ap nxt])
  have b: "emitted (\<lambda>c. snd (fold step (p # pre) (seen, c))) ctx
      = emitted (\<lambda>c. snd (step p (seen, c))) ctx
        @ emitted (\<lambda>c. snd (fold step pre (insert (nm p) seen, c))) ctx"
    by (rule emitted_fold_seen_Cons [OF ap nxt])
  have c: "insert (nm p) seen \<union> nm ` set pre = seen \<union> nm ` set (p # pre)"
    by auto
  show ?case
    using a b Cons.IH [of "insert (nm p) seen"] by (simp only: append_Cons c append_assoc)
qed

lemma duplicate_in_seen_loop:
  assumes ap: "\<And>x seen. appends (\<lambda>c. snd (step x (seen, c)))"
    and nxt: "\<And>x seen c. fst (step x (seen, c)) = insert (nm x) seen"
    and dup: "\<And>seen. nm x \<in> seen \<Longrightarrow> emitted (\<lambda>c. snd (step x (seen, c))) ctx = d"
    and x: "nm x \<in> nm ` set pre"
  shows "\<exists>A B. emitted (\<lambda>c. snd (fold step (pre @ x # post) ({}, c))) ctx = A @ d @ B
             \<and> emitted (\<lambda>c. snd (fold step (pre @ post) ({}, c))) ctx = A @ B"
proof -
  let ?A = "emitted (\<lambda>c. snd (fold step pre ({}, c))) ctx"
  let ?B = "emitted (\<lambda>c. snd (fold step post (nm ` set pre, c))) ctx"
  have ins: "insert (nm x) (nm ` set pre) = nm ` set pre" using x by auto
  have "emitted (\<lambda>c. snd (fold step (pre @ x # post) ({}, c))) ctx
        = ?A @ emitted (\<lambda>c. snd (fold step (x # post) (nm ` set pre, c))) ctx"
    using emitted_fold_seen_append [OF ap nxt, where pre = pre and xs = "x # post" and seen = "{}"
        and ctx = ctx] by simp
  also have "emitted (\<lambda>c. snd (fold step (x # post) (nm ` set pre, c))) ctx
        = emitted (\<lambda>c. snd (step x (nm ` set pre, c))) ctx
          @ emitted (\<lambda>c. snd (fold step post (insert (nm x) (nm ` set pre), c))) ctx"
    by (rule emitted_fold_seen_Cons [OF ap nxt])
  also have "\<dots> = d @ ?B"
    by (simp only: ins dup [OF x])
  finally have 1: "emitted (\<lambda>c. snd (fold step (pre @ x # post) ({}, c))) ctx = ?A @ d @ ?B" .
  have 2: "emitted (\<lambda>c. snd (fold step (pre @ post) ({}, c))) ctx = ?A @ ?B"
    using emitted_fold_seen_append [OF ap nxt, where pre = pre and xs = post and seen = "{}"
        and ctx = ctx] by simp
  show ?thesis using 1 2 by blast
qed


lemma union_member_duplicate:
  "type_name m \<in> seen \<Longrightarrow>
   emitted (\<lambda>c. snd (validateUnionMember u m (seen, c))) ctx =
     [\<lparr>message = ''Union type '' @ type_name u @ '' can only include type '' @ type_name m
                  @ '' once.'',
       nodes = kept_nodes (nodes_or_undefined (map_option (map (TypeN \<circ> NamedT))
                 (getUnionMemberTypeNodes u (type_name m))))\<rparr>]"
  by (simp add: emitted_def validateUnionMember_def Let_def)

lemma input_union_member_duplicate:
  "type_name m \<in> seen \<Longrightarrow>
   emitted (\<lambda>c. snd (validateInputUnionMember iu m (seen, c))) ctx =
     [\<lparr>message = ''Input Union type '' @ type_name iu @ '' can only include type ''
                  @ type_name m @ '' once.'',
       nodes = kept_nodes (nodes_or_undefined (map_option (map (TypeN \<circ> NamedT))
                 (getInputUnionMemberTypeNodes iu (type_name m))))\<rparr>]"
  by (simp add: emitted_def validateInputUnionMember_def Let_def)

lemma object_interface_duplicate:
  "type_name i \<in> seen \<Longrightarrow>
   emitted (\<lambda>c. snd (validateObjectInterface env object i (seen, c))) ctx =
     [\<lparr>message = ''Type '' @ type_name object @ '' can only implement '' @ type_name i
                  @ '' once.'',
       nodes = kept_nodes (NodeArray (map (Some \<circ> TypeN \<circ> NamedT)
                 (getAllImplementsInterfaceNodes object i)))\<rparr>]"
  by (simp add: emitted_def validateObjectInterface_def Let_def)

lemma directive_arg_duplicate:
  "arg_name a \<in> seen \<Longrightarrow>
   emitted (\<lambda>c. snd (validateDirectiveArg env d a (seen, c))) ctx =
     emitted (validateName env (arg_name a) (arg_astNode a)) ctx
     @ [\<lparr>message = ''Argument @'' @ directive_name d @ ''('' @ arg_name a
                  @ '':) can only be defined once.'',
         nodes = kept_nodes (NodeArray (map (Some \<circ> InputValueDefinition)
                   (getAllDirectiveArgNodes d (arg_name a))))\<rparr>]"
  by (subst emitted_def) (simp add: validateDirectiveArg_def Let_def)

lemma field_duplicate:
  "length (getAllFieldNodes t fn) > 1 \<Longrightarrow>
   emitted (validateField env t (fn, f)) ctx =
     emitted (validateName env (field_name f) (field_astNode f)) ctx
     @ [\<lparr>message = ''Field '' @ type_name t @ ''.'' @ fn @ '' can only be defined once.'',
         nodes = kept_nodes (NodeArray (map (Some \<circ> FieldDefinition)
                   (getAllFieldNodes t fn)))\<rparr>]"
  by (subst emitted_def) (simp add: validateField_def Let_def)

text \<open>
  Claim C3, as amended. Among the members of a union or of an input union, the interfaces
  an object claims and the arguments of a directive, an element whose name an earlier
  element of the collection has yields the duplicate diagnostic (for an argument, after
  the diagnostic of its name, if any) and nothing else: its kind or type is not checked,
  and the diagnostics of the other elements are those of the collection without it. A
  field with more than one definition node yields the diagnostic of its name, if any,
  and the duplicate diagnostic, and nothing else: its type and its arguments are not
  checked; the diagnostics of the fields of a type are those of each field, one after the
  other.
\<close>

theorem duplicates_skip_deeper_checks:
  "(type_name m \<in> type_name ` set mpre \<longrightarrow>
      (\<exists>A B. emitted (\<lambda>c. snd (fold (validateUnionMember u) (mpre @ m # mpost) ({}, c))) ctx
               = A @ [\<lparr>message = ''Union type '' @ type_name u @ '' can only include type ''
                                  @ type_name m @ '' once.'',
                       nodes = kept_nodes (nodes_or_undefined (map_option (map (TypeN \<circ> NamedT))
                                 (getUnionMemberTypeNodes u (type_name m))))\<rparr>] @ B
            \<and> emitted (\<lambda>c. snd (fold (validateUnionMember u) (mpre @ mpost) ({}, c))) ctx
               = A @ B))
   \<and> (type_name m \<in> type_name ` set mpre \<longrightarrow>
      (\<exists>A B. emitted (\<lambda>c. snd (fold (validateInputUnionMember iu) (mpre @ m # mpost) ({}, c))) ctx
               = A @ [\<lparr>message = ''Input Union type '' @ type_name iu
                                  @ '' can only include type '' @ type_name m @ '' once.'',
                       nodes = kept_nodes (nodes_or_undefined (map_option (map (TypeN \<circ> NamedT))
                                 (getInputUnionMemberTypeNodes iu (type_name m))))\<rparr>] @ B
            \<and> emitted (\<lambda>c. snd (fold (validateInputUnionMember iu) (mpre @ mpost) ({}, c))) ctx
               = A @ B))
   \<and> (type_name m \<in> type_name ` set mpre \<longrightarrow>
      (\<exists>A B. emitted (\<lambda>c. snd (fold (validateObjectInterface env object) (mpre @ m # mpost)
                                ({}, c))) ctx
               = A @ [\<lparr>message = ''Type '' @ type_name object @ '' can only implement ''
                                  @ type_name m @ '' once.'',
                       nodes = kept_nodes (NodeArray (map (Some \<circ> TypeN \<circ> NamedT)
                                 (getAllImplementsInterfaceNodes object m)))\<rparr>] @ B
            \<and> emitted (\<lambda>c. snd (fold (validateObjectInterface env object) (mpre @ mpost)
                                ({}, c))) ctx
               = A @ B))
   \<and> (arg_name a \<in> arg_name ` set apre \<longrightarrow>
      (\<exists>A B. emitted (\<lambda>c. snd (fold (validateDirectiveArg env d) (apre @ a # apost) ({}, c))) ctx
               = A @ (emitted (validateName env (arg_name a) (arg_astNode a)) ctx
                      @ [\<lparr>message = ''Argument @'' @ directive_name d @ ''('' @ arg_name a
                                     @ '':) can only be defined once.'',
                          nodes = kept_nodes (NodeArray (map (Some \<circ> InputValueDefinition)
                                    (getAllDirectiveArgNodes d (arg_name a))))\<rparr>]) @ B
            \<and> emitted (\<lambda>c. snd (fold (validateDirectiveArg env d) (apre @ apost) ({}, c))) ctx
               = A @ B))
   \<and> (length (getAllFieldNodes t fn) > 1 \<longrightarrow>
      emitted (validateField env t (fn, f)) ctx =
        emitted (validateName env (field_name f) (field_astNode f)) ctx
        @ [\<lparr>message = ''Field '' @ type_name t @ ''.'' @ fn @ '' can only be defined once.'',
            nodes = kept_nodes (NodeArray (map (Some \<circ> FieldDefinition)
                      (getAllFieldNodes t fn)))\<rparr>])
   \<and> emitted (fold (validateField env t) fs) ctx =
       concat (map (\<lambda>entry. emitted (validateField env t entry) ctx) fs)"
proof (intro conjI impI)
  assume x: "type_name m \<in> type_name ` set mpre"
  show "\<exists>A B. emitted (\<lambda>c. snd (fold (validateUnionMember u) (mpre @ m # mpost) ({}, c))) ctx
               = A @ [\<lparr>message = ''Union type '' @ type_name u @ '' can only include type ''
                                  @ type_name m @ '' once.'',
                       nodes = kept_nodes (nodes_or_undefined (map_option (map (TypeN \<circ> NamedT))
                                 (getUnionMemberTypeNodes u (type_name m))))\<rparr>] @ B
            \<and> emitted (\<lambda>c. snd (fold (validateUnionMember u) (mpre @ mpost) ({}, c))) ctx
               = A @ B"
    by (rule duplicate_in_seen_loop [where step = "validateUnionMember u" and nm = type_name,
          OF appends_validateUnionMember fst_validateUnionMember _ x])
       (rule union_member_duplicate)
next
  assume x: "type_name m \<in> type_name ` set mpre"
  show "\<exists>A B. emitted (\<lambda>c. snd (fold (validateInputUnionMember iu) (mpre @ m # mpost) ({}, c))) ctx
               = A @ [\<lparr>message = ''Input Union type '' @ type_name iu
                                  @ '' can only include type '' @ type_name m @ '' once.'',
                       nodes = kept_nodes (nodes_or_undefined (map_option (map (TypeN \<circ> NamedT))
                                 (getInputUnionMemberTypeNodes iu (type_name m))))\<rparr>] @ B
            \<and> emitted (\<lambda>c. snd (fold (validateInputUnionMember iu) (mpre @ mpost) ({}, c))) ctx
               = A @ B"
    by (rule duplicate_in_seen_loop [where step = "validateInputUnionMember iu"
          and nm = type_name, OF appends_validateInputUnionMember
          fst_validateInputUnionMember _ x]) (rule input_union_member_duplicate)
next
  assume x: "type_name m \<in> type_name ` set mpre"
  show "\<exists>A B. emitted (\<lambda>c. snd (fold (validateObjectInterface env object) (mpre @ m # mpost)
                                ({}, c))) ctx
               = A @ [\<lparr>message = ''Type '' @ type_name object @ '' can only implement ''
                                  @ type_name m @ '' once.'',
                       nodes = kept_nodes (NodeArray (map (Some \<circ> TypeN \<circ> NamedT)
                                 (getAllImplementsInterfaceNodes object m)))\<rparr>] @ B
            \<and> emitted (\<lambda>c. snd (fold (validateObjectInterface env object) (mpre @ mpost)
                                ({}, c))) ctx
               = A @ B"
    by (rule duplicate_in_seen_loop [where step = "validateObjectInterface env object"
          and nm = type_name, OF appends_validateObjectInterface
          fst_validateObjectInterface _ x]) (rule object_interface_duplicate)
next
  assume x: "arg_name a \<in> arg_name ` set apre"
  show "\<exists>A B. emitted (\<lambda>c. snd (fold (validateDirectiveArg env d) (apre @ a # apost) ({}, c))) ctx
               = A @ (emitted (validateName env (arg_name a) (arg_astNode a)) ctx
                      @ [\<lparr>message = ''Argument @'' @ directive_name d @ ''('' @ arg_name a
                                     @ '':) can only be defined once.'',
                          nodes = kept_nodes (NodeArray (map (Some \<circ> InputValueDefinition)
                                    (getAllDirectiveArgNodes d (arg_name a))))\<rparr>]) @ B
            \<and> emitted (\<lambda>c. snd (fold (validateDirectiveArg env d) (apre @ apost) ({}, c))) ctx
               = A @ B"
    by (rule duplicate_in_seen_loop [where step = "validateDirectiveArg env d"
          and nm = arg_name, OF appends_validateDirectiveArg
          fst_validateDirectiveArg _ x]) (rule directive_arg_duplicate)
next
  assume "length (getAllFieldNodes t fn) > 1"
  then show "emitted (validateField env t (fn, f)) ctx =
        emitted (validateName env (field_name f) (field_astNode f)) ctx
        @ [\<lparr>message = ''Field '' @ type_name t @ ''.'' @ fn @ '' can only be defined once.'',
            nodes = kept_nodes (NodeArray (map (Some \<circ> FieldDefinition)
                      (getAllFieldNodes t fn)))\<rparr>]"
    by (rule field_duplicate)
next
  show "emitted (fold (validateField env t) fs) ctx =
       concat (map (\<lambda>entry. emitted (validateField env t entry) ctx) fs)"
    by (rule emitted_fold [OF appends_validateField])
qed


lemmas dup_defs = example_dup_args_def example_dup_enum_def example_dup_directive_def
  example_f_node_def example_dup_field_def

theorem duplicates_skip_deeper_checks_witness:
  "length (emitted (\<lambda>c. snd (fold (validateDirectiveArg example_env example_dup_directive)
             [arg_of ''x'' (NamedRef ''O'' ObjectKind), arg_of ''x'' (NamedRef ''O'' ObjectKind)]
             ({}, c))) empty_context)
     = length (emitted (\<lambda>c. snd (fold (validateDirectiveArg example_env example_dup_directive)
             [arg_of ''x'' (NamedRef ''O'' ObjectKind)] ({}, c))) empty_context) + 1
   \<and> map message (emitted (validateDirective example_env (IsDirective example_dup_directive))
        empty_context)
     = [''The type of @d(x:) must be Input Type but got: O.'',
        ''Argument @d(x:) can only be defined once.'']
   \<and> emitted (validateField example_env example_dup_field
        (field_of ''f'' (NamedRef ''In'' InputObjectKind) [])) empty_context
     = [\<lparr>message = ''Field T2.f can only be defined once.'',
         nodes = [FieldDefinition example_f_node, FieldDefinition example_f_node]\<rparr>]"
proof -
  let ?x = "arg_of ''x'' (NamedRef ''O'' ObjectKind)"
  let ?L = "\<lambda>as. emitted (\<lambda>c. snd (fold (validateDirectiveArg example_env example_dup_directive)
             as ({}, c))) empty_context"
  have hyp: "arg_name ?x \<in> arg_name ` set [?x]" by simp
  obtain A B where a: "?L ([?x] @ ?x # []) = A @ (emitted (validateName example_env (arg_name ?x)
          (arg_astNode ?x)) empty_context
        @ [\<lparr>message = ''Argument @'' @ directive_name example_dup_directive @ ''(''
                       @ arg_name ?x @ '':) can only be defined once.'',
            nodes = kept_nodes (NodeArray (map (Some \<circ> InputValueDefinition)
                      (getAllDirectiveArgNodes example_dup_directive (arg_name ?x))))\<rparr>]) @ B"
    and b: "?L ([?x] @ []) = A @ B"
    using duplicates_skip_deeper_checks [where env = example_env and d = example_dup_directive
        and apre = "[?x]" and a = ?x and apost = "[]" and ctx = empty_context,
        THEN conjunct2, THEN conjunct2, THEN conjunct2, THEN conjunct1, THEN mp, OF hyp]
    by blast
  have n: "emitted (validateName example_env (arg_name ?x) (arg_astNode ?x)) empty_context = []"
    by (simp add: emitted_validateName arg_of_def example_isValidNameError_def)
  have "length (?L ([?x] @ ?x # [])) = length (?L ([?x] @ [])) + 1"
    by (simp only: a b n length_append list.size)
  then have 1: "length (?L [?x, ?x]) = length (?L [?x]) + 1"
    by (simp only: append_Cons append_Nil)
  have 2: "map message (emitted (validateDirective example_env (IsDirective example_dup_directive))
        empty_context)
     = [''The type of @d(x:) must be Input Type but got: O.'',
        ''Argument @d(x:) can only be defined once.'']"
    by (simp add: emitted_def validateDirective_def validateDirectiveArg_def validateName_def
        ex_data_defs dup_defs Let_def reportError_def addError_def)
  have 3: "emitted (validateField example_env example_dup_field
        (field_of ''f'' (NamedRef ''In'' InputObjectKind) [])) empty_context
     = [\<lparr>message = ''Field T2.f can only be defined once.'',
         nodes = [FieldDefinition example_f_node, FieldDefinition example_f_node]\<rparr>]"
    using duplicates_skip_deeper_checks [where env = example_env and t = example_dup_field
        and fn = "''f''" and f = "snd (field_of ''f'' (NamedRef ''In'' InputObjectKind) [])"
        and ctx = empty_context,
        THEN conjunct2, THEN conjunct2, THEN conjunct2, THEN conjunct2, THEN conjunct1]
    by (simp add: ex_data_defs example_dup_field_def example_f_node_def getAllFieldNodes_def
        getAllObjectOrInterfaceNodes_def emitted_validateName kept_nodes_def
        List.map_filter_simps)
  show ?thesis using 1 2 3 by blast
qed

text \<open>
  Claim C3, as stated, fails for the arguments of a field and for the values of an enum.
  On the object \<open>T\<close>, whose field \<open>f\<close> declares twice an argument \<open>x\<close> of the object type
  \<open>O\<close>, the second \<open>x\<close> is reported as a duplicate and its type is checked and reported
  all the same. On the enum \<open>E\<close>, whose AST node defines the value \<open>true\<close> twice, the
  duplicate is reported and the reserved name is checked and reported all the same.
\<close>

theorem duplicate_field_argument_counterexample:
  "map message (emitted (validateFields example_env example_dup_args) empty_context)
     = [''The type of T.f(x:) must be Input Type but got: O.'',
        ''Field argument T.f(x:) can only be defined once.'',
        ''The type of T.f(x:) must be Input Type but got: O.'']
   \<and> map message (emitted (validateEnumValues example_env example_dup_enum) empty_context)
     = [''Enum type E can include value true only once.'',
        ''Enum type E cannot include value: true.'']"
  by (simp add: emitted_def validateFields_def validateField_def validateFieldArg_def
      validateEnumValues_def validateEnumValue_def validateName_def getEnumValueNodes_def
      getAllFieldNodes_def getAllObjectOrInterfaceNodes_def
      ex_data_defs dup_defs Let_def reportError_def addError_def)

section \<open>Name validation and the introspection types\<close>

text \<open>The checks of a type's kind do not consult the introspection type set.\<close>

lemma validateName_introspection:
  "validateName (env\<lparr>isIntrospectionType := p\<rparr>) = validateName env"
  by (intro ext) (simp add: validateName_def split: option.splits)

lemma validateFieldArg_introspection:
  "validateFieldArg (env\<lparr>isIntrospectionType := p\<rparr>) = validateFieldArg env"
  by (intro ext) (simp add: validateFieldArg_def validateName_introspection Let_def)

lemma validateField_introspection:
  "validateField (env\<lparr>isIntrospectionType := p\<rparr>) = validateField env"
  by (intro ext)
     (simp add: validateField_def validateName_introspection validateFieldArg_introspection
        Let_def)

lemma validateFields_introspection:
  "validateFields (env\<lparr>isIntrospectionType := p\<rparr>) = validateFields env"
  by (intro ext) (simp add: validateFields_def validateField_introspection Let_def)

lemma validateInterfaceArg_introspection:
  "validateInterfaceArg (env\<lparr>isIntrospectionType := p\<rparr>) = validateInterfaceArg env"
  by (intro ext) (simp add: validateInterfaceArg_def Let_def split: option.splits)

lemma validateAdditionalArg_introspection:
  "validateAdditionalArg (env\<lparr>isIntrospectionType := p\<rparr>) = validateAdditionalArg env"
  by (intro ext) (simp add: validateAdditionalArg_def Let_def)

lemma validateInterfaceField_introspection:
  "validateInterfaceField (env\<lparr>isIntrospectionType := p\<rparr>) = validateInterfaceField env"
  by (intro ext)
     (simp add: validateInterfaceField_def validateInterfaceArg_introspection
        validateAdditionalArg_introspection Let_def split: option.splits)

lemma validateObjectImplementsInterface_introspection:
  "validateObjectImplementsInterface (env\<lparr>isIntrospectionType := p\<rparr>)
     = validateObjectImplementsInterface env"
  by (intro ext)
     (simp add: validateObjectImplementsInterface_def validateInterfaceField_introspection)

lemma validateObjectInterface_introspection:
  "validateObjectInterface (env\<lparr>isIntrospectionType := p\<rparr>) = validateObjectInterface env"
  by (intro ext)
     (simp add: validateObjectInterface_def validateObjectImplementsInterface_introspection
        Let_def)

lemma validateObjectInterfaces_introspection:
  "validateObjectInterfaces (env\<lparr>isIntrospectionType := p\<rparr>) = validateObjectInterfaces env"
  by (intro ext) (simp add: validateObjectInterfaces_def validateObjectInterface_introspection)

lemma validateEnumValue_introspection:
  "validateEnumValue (env\<lparr>isIntrospectionType := p\<rparr>) = validateEnumValue env"
  by (intro ext) (simp add: validateEnumValue_def validateName_introspection Let_def split: option.splits)

lemma validateEnumValues_introspection:
  "validateEnumValues (env\<lparr>isIntrospectionType := p\<rparr>) = validateEnumValues env"
  by (intro ext) (simp add: validateEnumValues_def validateEnumValue_introspection Let_def)

lemma validateInputField_introspection:
  "validateInputField (env\<lparr>isIntrospectionType := p\<rparr>) = validateInputField env"
  by (intro ext) (simp add: validateInputField_def validateName_introspection Let_def)

lemma validateInputFields_introspection:
  "validateInputFields (env\<lparr>isIntrospectionType := p\<rparr>) = validateInputFields env"
  by (intro ext) (simp add: validateInputFields_def validateInputField_introspection Let_def)

lemma validateTypeKind_introspection:
  "validateTypeKind (env\<lparr>isIntrospectionType := p\<rparr>) t ctx = validateTypeKind env t ctx"
  by (simp add: validateTypeKind_def validateFields_introspection
      validateObjectInterfaces_introspection validateEnumValues_introspection
      validateInputFields_introspection)

text \<open>The names of the fields of an input object.\<close>

lemma input_fields_name_checked:
  assumes "(fn, f) \<in> set (getFields t)"
    and "not_allowed_legacy (ctx_schema ctx) (field_name f)"
    and "isValidNameError env (field_name f) (field_astNode f) = Some e"
  shows "e \<in> set (emitted (validateInputFields env t) ctx)"
proof -
  have "e \<in> set (emitted (validateInputField env t (fn, f)) ctx)"
    using name_error_emitted [OF assms(2,3)]
    by (subst emitted_def) (auto simp add: validateInputField_def Let_def)
  then have "e \<in> set (emitted (fold (validateInputField env t) (getFields t)) ctx)"
    by (rule in_emitted_fold [OF appends_validateInputField assms(1)])
  then show ?thesis
    using assms(1)
    by (auto simp add: emitted_def [of "validateInputFields env t"] validateInputFields_def
        Let_def)
qed

lemma validateType_input_fields:
  assumes "isInputObjectType t"
    and "e \<in> set (emitted (validateInputFields env t) ctx)"
  shows "e \<in> set (errors (validateType env (k, IsNamedType t) ctx))"
  using assms
  by (auto simp add: validateType_def validateTypeKind_def Let_def isEnumType_def
      isObjectType_def isInterfaceType_def isUnionType_def isInputUnionType_def
      isInputObjectType_def)

lemma duplicate_field_only:
  "length (getAllFieldNodes t fn) > 1 \<Longrightarrow>
   emitted (validateField env t (fn, f)) ctx =
     emitted (validateName env (field_name f) (field_astNode f)) ctx
     @ [\<lparr>message = ''Field '' @ type_name t @ ''.'' @ fn @ '' can only be defined once.'',
         nodes = kept_nodes (NodeArray (map (Some \<circ> FieldDefinition)
                   (getAllFieldNodes t fn)))\<rparr>]"
  by (subst emitted_def) (simp add: validateField_def Let_def)


text \<open>
  Claim C8, as amended. \<open>validateName\<close> leaves the context as it is for a name in the
  schema's legacy-name allowlist, and otherwise appends the diagnostic of the name
  grammar, if there is one. For a type of the introspection type set, the type's own name
  is not checked: the loop over the type map goes straight to the checks of the type's
  kind; for any other type the name is checked first. That is the only effect of the
  introspection type set: the checks of the type's kind do not consult it. So, whether or
  not the type is an introspection type, a name the grammar rejects, and that is not in
  the allowlist, is reported when it is the name of a field of an object, interface or
  input object, of a value of an enum, or of an argument of a field that has at most one
  definition node. A field with more than one definition node yields the diagnostic of
  its name, if any, and the duplicate diagnostic, and nothing else: the names of its
  arguments are not checked, for any type.
\<close>

theorem name_check_exemptions:
  "(\<not> not_allowed_legacy (ctx_schema ctx) name \<longrightarrow> validateName env name node ctx = ctx)
   \<and> (not_allowed_legacy (ctx_schema ctx) name \<longrightarrow>
        errors (validateName env name node ctx) =
          errors ctx @ (case isValidNameError env name node of None \<Rightarrow> [] | Some d \<Rightarrow> [d]))
   \<and> (isIntrospectionType env t \<longrightarrow>
        validateType env (k, IsNamedType t) ctx = validateTypeKind env t ctx)
   \<and> (\<not> isIntrospectionType env t \<longrightarrow>
        validateType env (k, IsNamedType t) ctx =
          validateTypeKind env t
            (validateName env (type_name t) (map_option TypeDefinition (type_astNode t)) ctx))
   \<and> validateTypeKind (env\<lparr>isIntrospectionType := p\<rparr>) t ctx = validateTypeKind env t ctx
   \<and> ((isObjectType t \<or> isInterfaceType t) \<and> (fn, f) \<in> set (getFields t)
          \<and> not_allowed_legacy (ctx_schema ctx) (field_name f)
          \<and> isValidNameError env (field_name f) (field_astNode f) = Some e
        \<longrightarrow> e \<in> set (errors (validateType env (k, IsNamedType t) ctx)))
   \<and> ((isObjectType t \<or> isInterfaceType t) \<and> (fn, f) \<in> set (getFields t)
          \<and> length (getAllFieldNodes t fn) \<le> 1 \<and> a \<in> set (field_args f)
          \<and> not_allowed_legacy (ctx_schema ctx) (arg_name a)
          \<and> isValidNameError env (arg_name a) (arg_astNode a) = Some e
        \<longrightarrow> e \<in> set (errors (validateType env (k, IsNamedType t) ctx)))
   \<and> (length (getAllFieldNodes t fn) > 1 \<longrightarrow>
        emitted (validateField env t (fn, f)) ctx =
          emitted (validateName env (field_name f) (field_astNode f)) ctx
          @ [\<lparr>message = ''Field '' @ type_name t @ ''.'' @ fn @ '' can only be defined once.'',
              nodes = kept_nodes (NodeArray (map (Some \<circ> FieldDefinition)
                        (getAllFieldNodes t fn)))\<rparr>])
   \<and> (isEnumType t \<and> v \<in> set (getValues t)
          \<and> not_allowed_legacy (ctx_schema ctx) (enum_value_name v)
          \<and> isValidNameError env (enum_value_name v) (enum_value_astNode v) = Some e
        \<longrightarrow> e \<in> set (errors (validateType env (k, IsNamedType t) ctx)))
   \<and> (isInputObjectType t \<and> (fn, f) \<in> set (getFields t)
          \<and> not_allowed_legacy (ctx_schema ctx) (field_name f)
          \<and> isValidNameError env (field_name f) (field_astNode f) = Some e
        \<longrightarrow> e \<in> set (errors (validateType env (k, IsNamedType t) ctx)))"
proof -
  have allowed: "validateName env name node ctx = ctx"
    if "\<not> not_allowed_legacy (ctx_schema ctx) name"
    using that by (simp add: validateName_def not_allowed_legacy_def split: option.splits)
  have checked: "errors (validateName env name node ctx) =
          errors ctx @ (case isValidNameError env name node of None \<Rightarrow> [] | Some d \<Rightarrow> [d])"
    if "not_allowed_legacy (ctx_schema ctx) name"
    using that
    by (simp add: emitted_validateName not_allowed_legacy_def split: option.splits)
  have own: "validateType env (k, IsNamedType t) ctx = validateTypeKind env t ctx"
    if "isIntrospectionType env t"
    using that by (simp add: validateType_def)
  have other: "validateType env (k, IsNamedType t) ctx =
          validateTypeKind env t
            (validateName env (type_name t) (map_option TypeDefinition (type_astNode t)) ctx)"
    if "\<not> isIntrospectionType env t"
    using that by (simp add: validateType_def)
  have same: "validateTypeKind (env\<lparr>isIntrospectionType := p\<rparr>) t ctx = validateTypeKind env t ctx"
    by (rule validateTypeKind_introspection)
  have fields: "e \<in> set (errors (validateType env (k, IsNamedType t) ctx))"
    if "isObjectType t \<or> isInterfaceType t" "(fn, f) \<in> set (getFields t)"
      "not_allowed_legacy (ctx_schema ctx) (field_name f)"
      "isValidNameError env (field_name f) (field_astNode f) = Some e"
    by (rule validateType_fields [OF that(1) fields_name_checked [OF that(2,3,4)]])
  have args: "e \<in> set (errors (validateType env (k, IsNamedType t) ctx))"
    if "isObjectType t \<or> isInterfaceType t" "(fn, f) \<in> set (getFields t)"
      "length (getAllFieldNodes t fn) \<le> 1" "a \<in> set (field_args f)"
      "not_allowed_legacy (ctx_schema ctx) (arg_name a)"
      "isValidNameError env (arg_name a) (arg_astNode a) = Some e"
    by (rule validateType_fields [OF that(1) fields_arg_name_checked [OF that(2-6)]])
  have dup: "emitted (validateField env t (fn, f)) ctx =
          emitted (validateName env (field_name f) (field_astNode f)) ctx
          @ [\<lparr>message = ''Field '' @ type_name t @ ''.'' @ fn @ '' can only be defined once.'',
              nodes = kept_nodes (NodeArray (map (Some \<circ> FieldDefinition)
                        (getAllFieldNodes t fn)))\<rparr>]"
    if "length (getAllFieldNodes t fn) > 1"
    by (rule duplicate_field_only [OF that])
  have vals: "e \<in> set (errors (validateType env (k, IsNamedType t) ctx))"
    if "isEnumType t" "v \<in> set (getValues t)"
      "not_allowed_legacy (ctx_schema ctx) (enum_value_name v)"
      "isValidNameError env (enum_value_name v) (enum_value_astNode v) = Some e"
    by (rule validateType_enum_values [OF that(1) enum_value_name_checked [OF that(2,3,4)]])
  have inputs: "e \<in> set (errors (validateType env (k, IsNamedType t) ctx))"
    if "isInputObjectType t" "(fn, f) \<in> set (getFields t)"
      "not_allowed_legacy (ctx_schema ctx) (field_name f)"
      "isValidNameError env (field_name f) (field_astNode f) = Some e"
    by (rule validateType_input_fields [OF that(1) input_fields_name_checked [OF that(2,3,4)]])
  show ?thesis
    using allowed checked own other same fields args dup vals inputs by blast
qed

theorem name_check_exemptions_witness:
  "validateName example_env ''__x'' None
       (new_context (empty_schema\<lparr>allowedLegacyNames := Some [''__x'']\<rparr>))
     = new_context (empty_schema\<lparr>allowedLegacyNames := Some [''__x'']\<rparr>)
   \<and> errors (validateName example_env ''__x'' None empty_context)
     = [\<lparr>message = ''Name __x must not begin with __, which is reserved.'', nodes = []\<rparr>]
   \<and> validateType example_env (''__Type'', IsNamedType (bare_type ''__Type'' ScalarKind))
       empty_context = validateTypeKind example_env (bare_type ''__Type'' ScalarKind) empty_context
   \<and> \<lparr>message = ''Name __bad must not begin with __, which is reserved.'', nodes = []\<rparr>
       \<in> set (errors (validateType example_env
                 (''__Type'', IsNamedType example_introspection_type) empty_context))
   \<and> emitted (validateField example_env example_dup_field_bad_arg
        (field_of ''f'' String_ref_type [arg_of ''__a'' Int_ref])) empty_context
     = [\<lparr>message = ''Field __Type.f can only be defined once.'',
         nodes = [FieldDefinition example_f_node2, FieldDefinition example_f_node2]\<rparr>]
   \<and> map message (errors (validateType example_env
        (''__Type'', IsNamedType example_dup_field_bad_arg) empty_context))
     = [''Field __Type.f can only be defined once.'']"
proof -
  have 1: "validateName example_env ''__x'' None
       (new_context (empty_schema\<lparr>allowedLegacyNames := Some [''__x'']\<rparr>))
     = new_context (empty_schema\<lparr>allowedLegacyNames := Some [''__x'']\<rparr>)"
    using name_check_exemptions [where env = example_env and name = "''__x''" and node = None
        and ctx = "new_context (empty_schema\<lparr>allowedLegacyNames := Some [''__x'']\<rparr>)",
        THEN conjunct1]
    by (simp add: not_allowed_legacy_def new_context_def)
  have 2: "errors (validateName example_env ''__x'' None empty_context)
     = [\<lparr>message = ''Name __x must not begin with __, which is reserved.'', nodes = []\<rparr>]"
    using name_check_exemptions [where env = example_env and name = "''__x''" and node = None
        and ctx = empty_context, THEN conjunct2, THEN conjunct1]
    by (simp add: not_allowed_legacy_def ex_data_defs)
  have 3: "validateType example_env (''__Type'', IsNamedType (bare_type ''__Type'' ScalarKind))
       empty_context = validateTypeKind example_env (bare_type ''__Type'' ScalarKind) empty_context"
    using name_check_exemptions [where env = example_env and ctx = empty_context
        and t = "bare_type ''__Type'' ScalarKind" and k = "''__Type''",
        THEN conjunct2, THEN conjunct2, THEN conjunct1]
    by (simp add: bare_type_def)
  have 4: "\<lparr>message = ''Name __bad must not begin with __, which is reserved.'', nodes = []\<rparr>
       \<in> set (errors (validateType example_env
                 (''__Type'', IsNamedType example_introspection_type) empty_context))"
    using name_check_exemptions [where env = example_env and ctx = empty_context
        and t = example_introspection_type and k = "''__Type''" and fn = "''__bad''"
        and f = "snd (field_of ''__bad'' String_ref_type [])"
        and e = "\<lparr>message = ''Name __bad must not begin with __, which is reserved.'',
                   nodes = []\<rparr>",
        THEN conjunct2, THEN conjunct2, THEN conjunct2, THEN conjunct2, THEN conjunct2,
        THEN conjunct1]
    by (simp add: not_allowed_legacy_def ex_data_defs isObjectType_def)
  have 5: "emitted (validateField example_env example_dup_field_bad_arg
        (field_of ''f'' String_ref_type [arg_of ''__a'' Int_ref])) empty_context
     = [\<lparr>message = ''Field __Type.f can only be defined once.'',
         nodes = [FieldDefinition example_f_node2, FieldDefinition example_f_node2]\<rparr>]"
    using name_check_exemptions [where env = example_env and ctx = empty_context
        and t = example_dup_field_bad_arg and fn = "''f''"
        and f = "snd (field_of ''f'' String_ref_type [arg_of ''__a'' Int_ref])",
        THEN conjunct2, THEN conjunct2, THEN conjunct2, THEN conjunct2, THEN conjunct2,
        THEN conjunct2, THEN conjunct2, THEN conjunct1]
    by (simp add: ex_data_defs example_dup_field_bad_arg_def example_f_node2_def
        getAllFieldNodes_def getAllObjectOrInterfaceNodes_def emitted_validateName
        kept_nodes_def List.map_filter_simps)
  have 6: "map message (errors (validateType example_env
        (''__Type'', IsNamedType example_dup_field_bad_arg) empty_context))
     = [''Field __Type.f can only be defined once.'']"
    by (simp add: ex_data_defs example_dup_field_bad_arg_def example_f_node2_def
        validateType_def validateTypeKind_def validateFields_def validateField_def
        validateObjectInterfaces_def validateName_def isObjectType_def getAllFieldNodes_def
        getAllObjectOrInterfaceNodes_def Let_def reportError_def addError_def)
  show ?thesis using 1 2 3 4 5 6 by blast
qed

text \<open>
  Claim C8, as stated, fails for the names of the fields of an introspection type: on the
  object type named \<open>__Type\<close>, of the introspection type set, with a field \<open>__bad\<close>, the
  name of the type is not checked, and the name of the field is checked and reported.
\<close>

theorem introspection_field_name_counterexample:
  "isIntrospectionType example_env example_introspection_type
   \<and> errors (validateType example_env (''__Type'', IsNamedType example_introspection_type)
        empty_context)
     = [\<lparr>message = ''Name __bad must not begin with __, which is reserved.'', nodes = []\<rparr>]"
  by (simp add: ex_data_defs validateType_def validateTypeKind_def
      validateFields_def validateField_def validateObjectInterfaces_def validateName_def
      isObjectType_def getAllFieldNodes_def getAllObjectOrInterfaceNodes_def Let_def
      addError_def)

end
